theory Spec2Isabelle
  imports Main
begin

section \<open>Session errors of the Globus SDK: values, validation and serialisation\<close>

text \<open>
  Source: \<^verbatim>\<open>src/globus_sdk/experimental/session_error/session_error.py\<close>.
  The module has two classes, \<^verbatim>\<open>GlobusSessionErrorAuthorizationParameters\<close> and
  \<^verbatim>\<open>GlobusSessionError\<close>, each with a validating constructor, a \<^verbatim>\<open>from_dict\<close>
  class method and a \<^verbatim>\<open>to_dict\<close> method.
\<close>

subsection \<open>Python values\<close>

text \<open>
  The values that reach the module are those of a decoded response body: \<^verbatim>\<open>None\<close>,
  booleans, integers, strings, lists and dictionaries with string keys
  (\<^verbatim>\<open>dict[str, t.Any]\<close> in the annotations). A dictionary is a partial map: the module
  only looks keys up, filters by key and calls \<^verbatim>\<open>update\<close>, and Python compares
  dictionaries regardless of insertion order.
\<close>

datatype pyval =
    PNone
  | PBool bool
  | PInt int
  | PStr string
  | PList "pyval list"
  | PDict "string \<rightharpoonup> pyval"

type_synonym pydict = "string \<rightharpoonup> pyval"

text \<open>The three classes that occur as values of \<^verbatim>\<open>SUPPORTED_FIELDS\<close>.\<close>

datatype pytype = PyStr | PyList | PyBool

fun isinstance :: "pyval \<Rightarrow> pytype \<Rightarrow> bool" where
  "isinstance (PStr s) PyStr = True"
| "isinstance (PList xs) PyList = True"
| "isinstance (PBool b) PyBool = True"
| "isinstance v ty = False"

text \<open>\<^verbatim>\<open>field_type.__name__\<close>\<close>

fun type_name :: "pytype \<Rightarrow> string" where
  "type_name PyStr = ''str''"
| "type_name PyList = ''list''"
| "type_name PyBool = ''bool''"

text \<open>\<^verbatim>\<open>param_dict.get(field_name)\<close>: the value stored under the key, \<^verbatim>\<open>None\<close> when the key is missing.\<close>

definition dict_get :: "pydict \<Rightarrow> string \<Rightarrow> pyval" where
  "dict_get d k = (case d k of None \<Rightarrow> PNone | Some v \<Rightarrow> v)"

text \<open>\<^verbatim>\<open>sep.join(xs)\<close>\<close>

fun join :: "string \<Rightarrow> string list \<Rightarrow> string" where
  "join sep [] = []"
| "join sep [x] = x"
| "join sep (x # y # ys) = x @ sep @ join sep (y # ys)"

text \<open>
  The only exception the module raises is \<^verbatim>\<open>ValueError\<close>, with a message. In the
  messages the apostrophe is written \<open>CHR 0x27\<close>.
\<close>

datatype error = ValueError string

subsection \<open>Authorization parameters\<close>

record GlobusSessionErrorAuthorizationParameters =
  session_message :: pyval
  session_required_identities :: pyval
  session_required_policies :: pyval
  session_required_single_domain :: pyval
  session_required_mfa :: pyval
  session_required_scopes :: pyval
  extra_fields :: pydict

text \<open>The class attribute \<^verbatim>\<open>SUPPORTED_FIELDS\<close>, in the order of the dictionary literal.\<close>

definition SUPPORTED_FIELDS :: "(string \<times> pytype) list" where
  "SUPPORTED_FIELDS =
     [(''session_message'', PyStr),
      (''session_required_identities'', PyList),
      (''session_required_policies'', PyList),
      (''session_required_single_domain'', PyList),
      (''session_required_mfa'', PyBool),
      (''session_required_scopes'', PyList)]"

text \<open>\<^verbatim>\<open>SUPPORTED_FIELDS.keys()\<close>\<close>

definition SUPPORTED_FIELDS_keys :: "string list" where
  "SUPPORTED_FIELDS_keys = map fst SUPPORTED_FIELDS"

text \<open>
  \<^verbatim>\<open>getattr(self, field_name)\<close>. The module calls it with the keys of
  \<^verbatim>\<open>SUPPORTED_FIELDS\<close> only, each of which is an attribute set by the constructor;
  the last branch (any other name) is never reached from the module.
\<close>

definition getattr :: "GlobusSessionErrorAuthorizationParameters \<Rightarrow> string \<Rightarrow> pyval" where
  "getattr self field_name =
     (if field_name = ''session_message'' then session_message self
      else if field_name = ''session_required_identities'' then session_required_identities self
      else if field_name = ''session_required_policies'' then session_required_policies self
      else if field_name = ''session_required_single_domain'' then session_required_single_domain self
      else if field_name = ''session_required_mfa'' then session_required_mfa self
      else if field_name = ''session_required_scopes'' then session_required_scopes self
      else PNone)"

text \<open>
  The message of the first \<^verbatim>\<open>ValueError\<close> of the constructor. The two adjacent string
  literals are one literal, so \<^verbatim>\<open>join\<close> is called on their concatenation.
\<close>

definition no_supported_field_message :: string where
  "no_supported_field_message =
     join ''Must include at least one supported authorization parameter: , ''
       SUPPORTED_FIELDS_keys"

text \<open>
  The loop \<^verbatim>\<open>for field_name, field_type in self.SUPPORTED_FIELDS.items()\<close> of the
  constructor: the first field whose value is not \<^verbatim>\<open>None\<close> and not an instance of
  its type raises; \<open>None\<close> is the loop running to its end.
\<close>

fun enforce_field_types ::
  "GlobusSessionErrorAuthorizationParameters \<Rightarrow> (string \<times> pytype) list \<Rightarrow> error option" where
  "enforce_field_types self [] = None"
| "enforce_field_types self ((field_name, field_type) # rest) =
     (let field_value = getattr self field_name in
      if field_value \<noteq> PNone \<and> \<not> isinstance field_value field_type
      then Some (ValueError ([CHR 0x27] @ field_name @ [CHR 0x27] @ '' must be of type ''
                          @ type_name field_type))
      else enforce_field_types self rest)"

text \<open>
  \<^verbatim>\<open>__init__\<close>. The parameter \<^verbatim>\<open>extra\<close> is a dictionary or \<^verbatim>\<open>None\<close>;
  \<^verbatim>\<open>extra or {}\<close> is the empty dictionary for \<^verbatim>\<open>None\<close> and for an empty
  dictionary, and \<^verbatim>\<open>extra\<close> itself otherwise.
\<close>

definition GlobusSessionErrorAuthorizationParameters_init ::
  "pyval \<Rightarrow> pyval \<Rightarrow> pyval \<Rightarrow> pyval \<Rightarrow> pyval \<Rightarrow> pyval \<Rightarrow> pydict option
     \<Rightarrow> error + GlobusSessionErrorAuthorizationParameters" where
  "GlobusSessionErrorAuthorizationParameters_init
     session_message' session_required_identities' session_required_policies'
     session_required_single_domain' session_required_mfa' session_required_scopes' extra =
     (let self = \<lparr> session_message = session_message',
                    session_required_identities = session_required_identities',
                    session_required_policies = session_required_policies',
                    session_required_single_domain = session_required_single_domain',
                    session_required_mfa = session_required_mfa',
                    session_required_scopes = session_required_scopes',
                    extra_fields = (case extra of None \<Rightarrow> Map.empty | Some e \<Rightarrow> e) \<rparr>
      in if \<not> list_ex (\<lambda>field_name. getattr self field_name \<noteq> PNone) SUPPORTED_FIELDS_keys
         then Inl (ValueError no_supported_field_message)
         else (case enforce_field_types self SUPPORTED_FIELDS of
                 Some e \<Rightarrow> Inl e
               | None \<Rightarrow> Inr self))"

text \<open>
  \<^verbatim>\<open>from_dict\<close>: the dictionary comprehension keeps the items whose key is not in
  \<^verbatim>\<open>SUPPORTED_FIELDS\<close>; every supported field is read with \<^verbatim>\<open>get\<close>; the
  constructor is called with these keyword arguments.
\<close>

definition GlobusSessionErrorAuthorizationParameters_from_dict ::
  "pydict \<Rightarrow> error + GlobusSessionErrorAuthorizationParameters" where
  "GlobusSessionErrorAuthorizationParameters_from_dict param_dict =
     (let extras = (\<lambda>k. if k \<in> set SUPPORTED_FIELDS_keys then None else param_dict k);
          kwargs = (\<lambda>field_name. dict_get param_dict field_name)
      in GlobusSessionErrorAuthorizationParameters_init
           (kwargs ''session_message'')
           (kwargs ''session_required_identities'')
           (kwargs ''session_required_policies'')
           (kwargs ''session_required_single_domain'')
           (kwargs ''session_required_mfa'')
           (kwargs ''session_required_scopes'')
           (Some extras))"

text \<open>
  \<^verbatim>\<open>to_dict\<close>: the loop over the supported field names fills the dictionary, then
  \<^verbatim>\<open>update\<close> adds the extra fields, the value of \<^verbatim>\<open>extra_fields\<close> replacing
  the one already stored under the same key.
\<close>

fun set_authorization_parameters ::
  "GlobusSessionErrorAuthorizationParameters \<Rightarrow> string list \<Rightarrow> pydict \<Rightarrow> pydict" where
  "set_authorization_parameters self [] session_error_dict = session_error_dict"
| "set_authorization_parameters self (field # rest) session_error_dict =
     set_authorization_parameters self rest
       (if getattr self field \<noteq> PNone
        then session_error_dict(field \<mapsto> getattr self field)
        else session_error_dict)"

definition GlobusSessionErrorAuthorizationParameters_to_dict ::
  "GlobusSessionErrorAuthorizationParameters \<Rightarrow> bool \<Rightarrow> pydict" where
  "GlobusSessionErrorAuthorizationParameters_to_dict self include_extra =
     (let session_error_dict = set_authorization_parameters self SUPPORTED_FIELDS_keys Map.empty
      in if include_extra then session_error_dict ++ extra_fields self
         else session_error_dict)"

subsection \<open>Session errors\<close>

text \<open>
  The attribute \<^verbatim>\<open>extra_fields\<close> of a session error is the field \<open>top_extra_fields\<close>
  here, to keep it apart from the attribute of the same name of the authorization parameters.
\<close>

record GlobusSessionError =
  code :: pyval
  authorization_parameters :: GlobusSessionErrorAuthorizationParameters
  top_extra_fields :: pydict

text \<open>
  The argument \<^verbatim>\<open>authorization_parameters\<close> of the constructor is an instance of
  \<^verbatim>\<open>GlobusSessionErrorAuthorizationParameters\<close> or any other value (a dictionary,
  \<^verbatim>\<open>None\<close>, ...): the two \<^verbatim>\<open>isinstance\<close> tests tell them apart. The values
  of a mapping given to \<^verbatim>\<open>from_dict\<close> are decoded values, so \<^verbatim>\<open>from_dict\<close> passes
  a \<open>Value\<close>.
\<close>

datatype authorization_parameters_arg =
    Instance GlobusSessionErrorAuthorizationParameters
  | Value pyval

text \<open>
  The keys of the class attribute \<^verbatim>\<open>SUPPORTED_FIELDS\<close> of \<^verbatim>\<open>GlobusSessionError\<close>; the
  module never reads its values.
\<close>

definition GlobusSessionError_SUPPORTED_FIELDS_keys :: "string list" where
  "GlobusSessionError_SUPPORTED_FIELDS_keys = [''code'', ''authorization_parameters'']"

text \<open>
  \<^verbatim>\<open>__init__\<close>: the code is tested first, only against \<^verbatim>\<open>None\<close>; then
  \<^verbatim>\<open>extra or {}\<close> is stored; then the authorization parameters are stored, parsed or
  refused. An exception raised by \<^verbatim>\<open>from_dict\<close> leaves the constructor as it is.
\<close>

definition GlobusSessionError_init ::
  "pyval \<Rightarrow> authorization_parameters_arg \<Rightarrow> pydict option \<Rightarrow> error + GlobusSessionError" where
  "GlobusSessionError_init code' authorization_parameters' extra =
     (if code' = PNone then Inl (ValueError (''Must have a '' @ [CHR 0x27] @ ''code'' @ [CHR 0x27]))
      else
        (let extra_fields' = (case extra of None \<Rightarrow> Map.empty | Some e \<Rightarrow> e) in
         case authorization_parameters' of
           Instance ap \<Rightarrow>
             Inr \<lparr> code = code', authorization_parameters = ap, top_extra_fields = extra_fields' \<rparr>
         | Value (PDict param_dict) \<Rightarrow>
             (case GlobusSessionErrorAuthorizationParameters_from_dict param_dict of
                Inl e \<Rightarrow> Inl e
              | Inr ap \<Rightarrow>
                  Inr \<lparr> code = code', authorization_parameters = ap,
                        top_extra_fields = extra_fields' \<rparr>)
         | Value other \<Rightarrow> Inl (ValueError (''Must have '' @ [CHR 0x27] @ ''authorization_parameters''
                                           @ [CHR 0x27]))))"

text \<open>
  \<^verbatim>\<open>from_dict\<close>: the items whose key is not \<open>code\<close> or \<open>authorization_parameters\<close>
  are the extra fields; the two supported fields are read with \<^verbatim>\<open>get\<close>.
\<close>

definition GlobusSessionError_from_dict :: "pydict \<Rightarrow> error + GlobusSessionError" where
  "GlobusSessionError_from_dict error_dict =
     (let extras = (\<lambda>k. if k \<in> set GlobusSessionError_SUPPORTED_FIELDS_keys then None
                         else error_dict k);
          kwargs = (\<lambda>field_name. dict_get error_dict field_name)
      in GlobusSessionError_init (kwargs ''code'') (Value (kwargs ''authorization_parameters''))
           (Some extras))"

text \<open>
  \<^verbatim>\<open>to_dict\<close>: the dictionary literal with the two entries, then \<^verbatim>\<open>update\<close> with
  the extra fields when \<^verbatim>\<open>include_extra\<close> is true.
\<close>

definition GlobusSessionError_to_dict :: "GlobusSessionError \<Rightarrow> bool \<Rightarrow> pydict" where
  "GlobusSessionError_to_dict self include_extra =
     (let session_error_dict =
            [''code'' \<mapsto> code self,
             ''authorization_parameters'' \<mapsto>
               PDict (GlobusSessionErrorAuthorizationParameters_to_dict
                        (authorization_parameters self) include_extra)]
      in if include_extra then session_error_dict ++ top_extra_fields self
         else session_error_dict)"

subsection \<open>Auxiliary predicate\<close>

text \<open>
  The negation of the test of the type-enforcing loop, for one field: the value is
  \<^verbatim>\<open>None\<close> or an instance of the field's type.
\<close>

definition field_type_ok :: "pyval \<Rightarrow> pytype \<Rightarrow> bool" where
  "field_type_ok v ty \<longleftrightarrow> v = PNone \<or> isinstance v ty"

section \<open>Properties of the authorization parameters\<close>

subsection \<open>Field names and attribute access\<close>

lemma SUPPORTED_FIELDS_keys_eq:
  "SUPPORTED_FIELDS_keys =
     [''session_message'', ''session_required_identities'', ''session_required_policies'',
      ''session_required_single_domain'', ''session_required_mfa'', ''session_required_scopes'']"
  by (simp add: SUPPORTED_FIELDS_keys_def SUPPORTED_FIELDS_def)

lemma getattr_simps:
  "getattr self ''session_message'' = session_message self"
  "getattr self ''session_required_identities'' = session_required_identities self"
  "getattr self ''session_required_policies'' = session_required_policies self"
  "getattr self ''session_required_single_domain'' = session_required_single_domain self"
  "getattr self ''session_required_mfa'' = session_required_mfa self"
  "getattr self ''session_required_scopes'' = session_required_scopes self"
  by (simp_all add: getattr_def)

subsection \<open>The two checks of the constructor\<close>

lemma any_field_iff:
  "list_ex (\<lambda>field_name. getattr self field_name \<noteq> PNone) SUPPORTED_FIELDS_keys \<longleftrightarrow>
     session_message self \<noteq> PNone \<or> session_required_identities self \<noteq> PNone \<or>
     session_required_policies self \<noteq> PNone \<or> session_required_single_domain self \<noteq> PNone \<or>
     session_required_mfa self \<noteq> PNone \<or> session_required_scopes self \<noteq> PNone"
  by (simp add: SUPPORTED_FIELDS_keys_eq getattr_simps)

lemma enforce_field_types_None_iff:
  "enforce_field_types self SUPPORTED_FIELDS = None \<longleftrightarrow>
     field_type_ok (session_message self) PyStr \<and>
     field_type_ok (session_required_identities self) PyList \<and>
     field_type_ok (session_required_policies self) PyList \<and>
     field_type_ok (session_required_single_domain self) PyList \<and>
     field_type_ok (session_required_mfa self) PyBool \<and>
     field_type_ok (session_required_scopes self) PyList"
  by (simp add: SUPPORTED_FIELDS_def getattr_simps field_type_ok_def Let_def)

lemma init_Inr_iff:
  "GlobusSessionErrorAuthorizationParameters_init sm sri srp srsd srm srs extra = Inr x \<longleftrightarrow>
     (sm \<noteq> PNone \<or> sri \<noteq> PNone \<or> srp \<noteq> PNone \<or> srsd \<noteq> PNone \<or> srm \<noteq> PNone \<or> srs \<noteq> PNone) \<and>
     field_type_ok sm PyStr \<and> field_type_ok sri PyList \<and> field_type_ok srp PyList \<and>
     field_type_ok srsd PyList \<and> field_type_ok srm PyBool \<and> field_type_ok srs PyList \<and>
     x = \<lparr> session_message = sm, session_required_identities = sri,
           session_required_policies = srp, session_required_single_domain = srsd,
           session_required_mfa = srm, session_required_scopes = srs,
           extra_fields = (case extra of None \<Rightarrow> Map.empty | Some e \<Rightarrow> e) \<rparr>"
proof -
  define self where "self = \<lparr> session_message = sm, session_required_identities = sri,
           session_required_policies = srp, session_required_single_domain = srsd,
           session_required_mfa = srm, session_required_scopes = srs,
           extra_fields = (case extra of None \<Rightarrow> Map.empty | Some e \<Rightarrow> e) \<rparr>"
  have sel: "session_message self = sm" "session_required_identities self = sri"
    "session_required_policies self = srp" "session_required_single_domain self = srsd"
    "session_required_mfa self = srm" "session_required_scopes self = srs"
    by (simp_all add: self_def)
  have init: "GlobusSessionErrorAuthorizationParameters_init sm sri srp srsd srm srs extra =
      (if \<not> list_ex (\<lambda>field_name. getattr self field_name \<noteq> PNone) SUPPORTED_FIELDS_keys
         then Inl (ValueError no_supported_field_message)
         else (case enforce_field_types self SUPPORTED_FIELDS of
                 Some e \<Rightarrow> Inl e
               | None \<Rightarrow> Inr self))"
    unfolding GlobusSessionErrorAuthorizationParameters_init_def Let_def self_def by (rule refl)
  show ?thesis
  proof (cases "enforce_field_types self SUPPORTED_FIELDS")
    case None
    with enforce_field_types_None_iff[of self] show ?thesis
      unfolding init any_field_iff sel self_def[symmetric] by auto
  next
    case (Some e)
    with enforce_field_types_None_iff[of self] show ?thesis
      unfolding init any_field_iff sel self_def[symmetric] by auto
  qed
qed

lemma init_Inl_iff:
  "(\<exists>e. GlobusSessionErrorAuthorizationParameters_init sm sri srp srsd srm srs extra = Inl e) \<longleftrightarrow>
     (sm = PNone \<and> sri = PNone \<and> srp = PNone \<and> srsd = PNone \<and> srm = PNone \<and> srs = PNone) \<or>
     \<not> (field_type_ok sm PyStr \<and> field_type_ok sri PyList \<and> field_type_ok srp PyList \<and>
        field_type_ok srsd PyList \<and> field_type_ok srm PyBool \<and> field_type_ok srs PyList)"
proof -
  have "(\<exists>e. GlobusSessionErrorAuthorizationParameters_init sm sri srp srsd srm srs extra = Inl e)
        \<longleftrightarrow> \<not> (\<exists>x. GlobusSessionErrorAuthorizationParameters_init sm sri srp srsd srm srs extra = Inr x)"
    by (cases "GlobusSessionErrorAuthorizationParameters_init sm sri srp srsd srm srs extra") auto
  then show ?thesis
    unfolding init_Inr_iff by blast
qed

subsection \<open>Parsing and serialising\<close>

lemma from_dict_eq_init:
  "GlobusSessionErrorAuthorizationParameters_from_dict d =
     GlobusSessionErrorAuthorizationParameters_init
       (dict_get d ''session_message'') (dict_get d ''session_required_identities'')
       (dict_get d ''session_required_policies'') (dict_get d ''session_required_single_domain'')
       (dict_get d ''session_required_mfa'') (dict_get d ''session_required_scopes'')
       (Some (d |` (- set SUPPORTED_FIELDS_keys)))"
proof -
  have "(\<lambda>k. if k \<in> set SUPPORTED_FIELDS_keys then None else d k) = d |` (- set SUPPORTED_FIELDS_keys)"
    by (auto simp: restrict_map_def)
  then show ?thesis
    by (simp add: GlobusSessionErrorAuthorizationParameters_from_dict_def Let_def)
qed

lemma from_dict_fields:
  assumes "GlobusSessionErrorAuthorizationParameters_from_dict d = Inr x"
  shows "extra_fields x = d |` (- set SUPPORTED_FIELDS_keys)"
    and "k \<in> set SUPPORTED_FIELDS_keys \<Longrightarrow> getattr x k = dict_get d k"
  using assms unfolding from_dict_eq_init init_Inr_iff
  by (auto simp: SUPPORTED_FIELDS_keys_eq getattr_simps)

lemma set_authorization_parameters_lookup:
  "set_authorization_parameters self fs d k =
     (if k \<in> set fs \<and> getattr self k \<noteq> PNone then Some (getattr self k) else d k)"
  by (induction fs arbitrary: d) auto

lemma to_dict_lookup:
  "GlobusSessionErrorAuthorizationParameters_to_dict self include_extra k =
     (if include_extra \<and> extra_fields self k \<noteq> None then extra_fields self k
      else if k \<in> set SUPPORTED_FIELDS_keys \<and> getattr self k \<noteq> PNone
           then Some (getattr self k) else None)"
  by (simp add: GlobusSessionErrorAuthorizationParameters_to_dict_def Let_def
      set_authorization_parameters_lookup map_add_def split: option.splits)

lemma dict_get_to_dict:
  assumes "k \<in> set SUPPORTED_FIELDS_keys" and "extra_fields x k = None"
  shows "dict_get (GlobusSessionErrorAuthorizationParameters_to_dict x b) k = getattr x k"
  using assms by (simp add: dict_get_def to_dict_lookup)

subsection \<open>A worked example\<close>

lemma restrict_example:
  "[''session_message'' \<mapsto> PStr ''m'', ''custom_key'' \<mapsto> PInt 1] |` (- set SUPPORTED_FIELDS_keys)
     = [''custom_key'' \<mapsto> PInt 1]"
  by (rule ext) (simp add: restrict_map_def SUPPORTED_FIELDS_keys_eq)

lemma from_dict_example:
  "GlobusSessionErrorAuthorizationParameters_from_dict
     [''session_message'' \<mapsto> PStr ''m'', ''custom_key'' \<mapsto> PInt 1] =
   Inr \<lparr> session_message = PStr ''m'', session_required_identities = PNone,
         session_required_policies = PNone, session_required_single_domain = PNone,
         session_required_mfa = PNone, session_required_scopes = PNone,
         extra_fields = [''custom_key'' \<mapsto> PInt 1] \<rparr>"
  unfolding from_dict_eq_init restrict_example init_Inr_iff
  by (simp add: dict_get_def field_type_ok_def)

subsection \<open>Errors\<close>

lemma ValueError_ex: "(\<exists>msg. r = Inl (ValueError msg)) \<longleftrightarrow> (\<exists>e. r = Inl e)"
proof
  assume "\<exists>msg. r = Inl (ValueError msg)"
  then show "\<exists>e. r = Inl e" by blast
next
  assume "\<exists>e. r = Inl e"
  then obtain e where "r = Inl e" ..
  then show "\<exists>msg. r = Inl (ValueError msg)" by (cases e) simp
qed

subsection \<open>What \<^verbatim>\<open>to_dict\<close> returns\<close>

lemma from_dict_extra_disjoint:
  assumes "GlobusSessionErrorAuthorizationParameters_from_dict d = Inr x"
  shows "dom (extra_fields x) \<inter> set SUPPORTED_FIELDS_keys = {}"
  unfolding from_dict_fields(1)[OF assms] by auto

lemma to_dict_False_lookup:
  "GlobusSessionErrorAuthorizationParameters_to_dict x False k =
     (if k \<in> set SUPPORTED_FIELDS_keys \<and> getattr x k \<noteq> PNone then Some (getattr x k) else None)"
  by (simp add: to_dict_lookup)

lemma to_dict_True_disjoint:
  assumes "dom (extra_fields x) \<inter> set SUPPORTED_FIELDS_keys = {}"
  shows "GlobusSessionErrorAuthorizationParameters_to_dict x True k =
     (if k \<in> set SUPPORTED_FIELDS_keys
      then (if getattr x k \<noteq> PNone then Some (getattr x k) else None)
      else extra_fields x k)"
proof (cases "k \<in> set SUPPORTED_FIELDS_keys")
  case True
  with assms have "extra_fields x k = None" by blast
  with True show ?thesis by (simp add: to_dict_lookup)
next
  case False
  then show ?thesis by (cases "extra_fields x k") (simp_all add: to_dict_lookup)
qed

lemma extra_fields_le_to_dict:
  "extra_fields x \<subseteq>\<^sub>m GlobusSessionErrorAuthorizationParameters_to_dict x True"
  by (auto simp: map_le_def to_dict_lookup)

lemma to_dict_example_False:
  "GlobusSessionErrorAuthorizationParameters_to_dict
     \<lparr> session_message = PStr ''m'', session_required_identities = PNone,
       session_required_policies = PNone, session_required_single_domain = PNone,
       session_required_mfa = PNone, session_required_scopes = PNone,
       extra_fields = [''custom_key'' \<mapsto> PInt 1] \<rparr> False
   = [''session_message'' \<mapsto> PStr ''m'']"
  by (rule ext) (simp add: to_dict_lookup SUPPORTED_FIELDS_keys_eq getattr_def)

lemma to_dict_example_True:
  "GlobusSessionErrorAuthorizationParameters_to_dict
     \<lparr> session_message = PStr ''m'', session_required_identities = PNone,
       session_required_policies = PNone, session_required_single_domain = PNone,
       session_required_mfa = PNone, session_required_scopes = PNone,
       extra_fields = [''custom_key'' \<mapsto> PInt 1] \<rparr> True
   = [''session_message'' \<mapsto> PStr ''m'', ''custom_key'' \<mapsto> PInt 1]"
  by (rule ext) (simp add: to_dict_lookup SUPPORTED_FIELDS_keys_eq getattr_def)

subsection \<open>Mappings without a recognised field\<close>

lemma init_all_None:
  "GlobusSessionErrorAuthorizationParameters_init PNone PNone PNone PNone PNone PNone extra =
     Inl (ValueError no_supported_field_message)"
  by (simp add: GlobusSessionErrorAuthorizationParameters_init_def Let_def any_field_iff)

lemma from_dict_all_null:
  assumes "\<forall>k \<in> set SUPPORTED_FIELDS_keys. dict_get d k = PNone"
  shows "GlobusSessionErrorAuthorizationParameters_from_dict d =
           Inl (ValueError no_supported_field_message)"
proof -
  from assms have "dict_get d ''session_message'' = PNone"
    "dict_get d ''session_required_identities'' = PNone"
    "dict_get d ''session_required_policies'' = PNone"
    "dict_get d ''session_required_single_domain'' = PNone"
    "dict_get d ''session_required_mfa'' = PNone"
    "dict_get d ''session_required_scopes'' = PNone"
    by (simp_all add: SUPPORTED_FIELDS_keys_eq)
  then show ?thesis
    by (simp add: from_dict_eq_init init_all_None)
qed

lemma from_dict_valid:
  assumes "GlobusSessionErrorAuthorizationParameters_from_dict d = Inr x"
  shows "(\<exists>k \<in> set SUPPORTED_FIELDS_keys. getattr x k \<noteq> PNone) \<and>
         (\<forall>(k, ty) \<in> set SUPPORTED_FIELDS. getattr x k = PNone \<or> isinstance (getattr x k) ty)"
  using assms unfolding from_dict_eq_init init_Inr_iff
  by (auto simp: SUPPORTED_FIELDS_keys_eq SUPPORTED_FIELDS_def getattr_simps field_type_ok_def)

lemma dict_get_remove_null:
  assumes "d k = Some PNone"
  shows "dict_get (d(k := None)) n = dict_get d n"
  using assms by (simp add: dict_get_def)

lemma restrict_remove_recognised:
  assumes "k \<in> K"
  shows "(d(k := None)) |` (- K) = d |` (- K)"
  using assms by (auto simp: restrict_map_def)


lemma null_only_example:
  "GlobusSessionErrorAuthorizationParameters_from_dict
     [''session_message'' \<mapsto> PNone, ''session_required_mfa'' \<mapsto> PBool True] =
   Inr \<lparr> session_message = PNone, session_required_identities = PNone,
         session_required_policies = PNone, session_required_single_domain = PNone,
         session_required_mfa = PBool True, session_required_scopes = PNone,
         extra_fields = Map.empty \<rparr>"
proof -
  have "[''session_message'' \<mapsto> PNone, ''session_required_mfa'' \<mapsto> PBool True]
          |` (- set SUPPORTED_FIELDS_keys) = Map.empty"
    by (rule ext) (simp add: restrict_map_def SUPPORTED_FIELDS_keys_eq)
  then show ?thesis
    unfolding from_dict_eq_init init_Inr_iff
    by (simp add: dict_get_def field_type_ok_def)
qed

section \<open>Properties of the session error\<close>

lemma GlobusSessionError_init_Instance:
  "code' \<noteq> PNone \<Longrightarrow>
   GlobusSessionError_init code' (Instance ap) extra =
     Inr \<lparr> code = code', authorization_parameters = ap,
           top_extra_fields = (case extra of None \<Rightarrow> Map.empty | Some e \<Rightarrow> e) \<rparr>"
  by (simp add: GlobusSessionError_init_def)

lemma GlobusSessionError_init_dict:
  "code' \<noteq> PNone \<Longrightarrow>
   GlobusSessionError_init code' (Value (PDict param_dict)) extra =
     (case GlobusSessionErrorAuthorizationParameters_from_dict param_dict of
        Inl e \<Rightarrow> Inl e
      | Inr ap \<Rightarrow>
          Inr \<lparr> code = code', authorization_parameters = ap,
                top_extra_fields = (case extra of None \<Rightarrow> Map.empty | Some e \<Rightarrow> e) \<rparr>)"
  by (simp add: GlobusSessionError_init_def)

lemma GlobusSessionError_init_other:
  assumes "code' \<noteq> PNone" and "\<forall>param_dict. v \<noteq> PDict param_dict"
  shows "GlobusSessionError_init code' (Value v) extra =
     Inl (ValueError (''Must have '' @ [CHR 0x27] @ ''authorization_parameters'' @ [CHR 0x27]))"
  using assms by (cases v) (simp_all add: GlobusSessionError_init_def)

lemma GlobusSessionError_init_extra:
  assumes "GlobusSessionError_init code' arg extra = Inr e"
  shows "top_extra_fields e = (case extra of None \<Rightarrow> Map.empty | Some m \<Rightarrow> m)"
    and "code e = code'" and "code' \<noteq> PNone"
  using assms
  by (auto simp: GlobusSessionError_init_def Let_def
      split: if_splits authorization_parameters_arg.splits pyval.splits sum.splits)

lemma GlobusSessionError_from_dict_eq_init:
  "GlobusSessionError_from_dict d =
     GlobusSessionError_init (dict_get d ''code'') (Value (dict_get d ''authorization_parameters''))
       (Some (d |` (- set GlobusSessionError_SUPPORTED_FIELDS_keys)))"
proof -
  have "(\<lambda>k. if k \<in> set GlobusSessionError_SUPPORTED_FIELDS_keys then None else d k)
        = d |` (- set GlobusSessionError_SUPPORTED_FIELDS_keys)"
    by (auto simp: restrict_map_def)
  then show ?thesis
    by (simp add: GlobusSessionError_from_dict_def Let_def)
qed

lemma GlobusSessionError_from_dict_extra_disjoint:
  assumes "GlobusSessionError_from_dict d = Inr e"
  shows "dom (top_extra_fields e) \<inter> set GlobusSessionError_SUPPORTED_FIELDS_keys = {}"
  using GlobusSessionError_init_extra(1)[OF assms[unfolded GlobusSessionError_from_dict_eq_init]]
  by auto

lemma GlobusSessionError_to_dict_lookup:
  "GlobusSessionError_to_dict e include_extra k =
     (if include_extra \<and> top_extra_fields e k \<noteq> None then top_extra_fields e k
      else if k = ''authorization_parameters''
           then Some (PDict (GlobusSessionErrorAuthorizationParameters_to_dict
                               (authorization_parameters e) include_extra))
      else if k = ''code'' then Some (code e)
      else None)"
  by (simp add: GlobusSessionError_to_dict_def Let_def map_add_def split: option.splits)

lemma authorization_parameters_example:
  "GlobusSessionErrorAuthorizationParameters_from_dict [''session_required_mfa'' \<mapsto> PBool True] =
     Inr \<lparr> session_message = PNone, session_required_identities = PNone,
           session_required_policies = PNone, session_required_single_domain = PNone,
           session_required_mfa = PBool True, session_required_scopes = PNone,
           extra_fields = Map.empty \<rparr>"
proof -
  have "[''session_required_mfa'' \<mapsto> PBool True] |` (- set SUPPORTED_FIELDS_keys) = Map.empty"
    by (rule ext) (simp add: restrict_map_def SUPPORTED_FIELDS_keys_eq)
  then show ?thesis
    unfolding from_dict_eq_init init_Inr_iff
    by (simp add: dict_get_def field_type_ok_def)
qed

lemma authorization_parameters_example_to_dict:
  "GlobusSessionErrorAuthorizationParameters_to_dict
     \<lparr> session_message = PNone, session_required_identities = PNone,
       session_required_policies = PNone, session_required_single_domain = PNone,
       session_required_mfa = PBool True, session_required_scopes = PNone,
       extra_fields = Map.empty \<rparr> include_extra
   = [''session_required_mfa'' \<mapsto> PBool True]"
  by (rule ext) (simp add: to_dict_lookup SUPPORTED_FIELDS_keys_eq getattr_def)

lemma session_error_example:
  "GlobusSessionError_from_dict
     [''code'' \<mapsto> PStr ''c'',
      ''authorization_parameters'' \<mapsto> PDict [''session_required_mfa'' \<mapsto> PBool True],
      ''extra_x'' \<mapsto> PInt 5] =
   Inr \<lparr> code = PStr ''c'',
         authorization_parameters =
           \<lparr> session_message = PNone, session_required_identities = PNone,
             session_required_policies = PNone, session_required_single_domain = PNone,
             session_required_mfa = PBool True, session_required_scopes = PNone,
             extra_fields = Map.empty \<rparr>,
         top_extra_fields = [''extra_x'' \<mapsto> PInt 5] \<rparr>"
proof -
  have "[''code'' \<mapsto> PStr ''c'',
      ''authorization_parameters'' \<mapsto> PDict [''session_required_mfa'' \<mapsto> PBool True],
      ''extra_x'' \<mapsto> PInt 5] |` (- set GlobusSessionError_SUPPORTED_FIELDS_keys)
      = [''extra_x'' \<mapsto> PInt 5]"
    by (rule ext) (simp add: restrict_map_def GlobusSessionError_SUPPORTED_FIELDS_keys_def)
  then show ?thesis
    unfolding GlobusSessionError_from_dict_eq_init
    by (simp add: dict_get_def GlobusSessionError_init_dict authorization_parameters_example)
qed

lemma session_error_example_to_dict:
  "GlobusSessionError_to_dict
     \<lparr> code = PStr ''c'',
       authorization_parameters =
         \<lparr> session_message = PNone, session_required_identities = PNone,
           session_required_policies = PNone, session_required_single_domain = PNone,
           session_required_mfa = PBool True, session_required_scopes = PNone,
           extra_fields = Map.empty \<rparr>,
       top_extra_fields = [''extra_x'' \<mapsto> PInt 5] \<rparr> True =
   [''code'' \<mapsto> PStr ''c'',
    ''authorization_parameters'' \<mapsto> PDict [''session_required_mfa'' \<mapsto> PBool True],
    ''extra_x'' \<mapsto> PInt 5]"
  by (rule ext)
    (simp add: GlobusSessionError_to_dict_lookup authorization_parameters_example_to_dict)

section \<open>The claims\<close>

subsection \<open>Round trip of the authorization parameters\<close>

text \<open>
  C1. Round trip: for every instance \<open>x\<close> that \<^verbatim>\<open>from_dict\<close> built from some mapping
  (so the mapping had at least one recognised field set, and every recognised field that
  was set had its declared type), \<^verbatim>\<open>from_dict(x.to_dict(include_extra=True))\<close>
  succeeds and returns an instance equal to \<open>x\<close>: the same six recognised fields and the
  same extra fields.
\<close>

theorem C1_from_dict_to_dict_round_trip:
  assumes "GlobusSessionErrorAuthorizationParameters_from_dict d = Inr x"
  shows "GlobusSessionErrorAuthorizationParameters_from_dict
           (GlobusSessionErrorAuthorizationParameters_to_dict x True) = Inr x"
proof -
  let ?d' = "GlobusSessionErrorAuthorizationParameters_to_dict x True"
  have ex: "extra_fields x = d |` (- set SUPPORTED_FIELDS_keys)"
    by (rule from_dict_fields(1)[OF assms])
  have get: "dict_get ?d' k = dict_get d k" if "k \<in> set SUPPORTED_FIELDS_keys" for k
  proof -
    have "extra_fields x k = None" using that by (simp add: ex)
    then show ?thesis
      using that from_dict_fields(2)[OF assms that] by (simp add: dict_get_to_dict)
  qed
  have extras: "?d' |` (- set SUPPORTED_FIELDS_keys) = d |` (- set SUPPORTED_FIELDS_keys)"
  proof
    fix k
    show "(?d' |` (- set SUPPORTED_FIELDS_keys)) k = (d |` (- set SUPPORTED_FIELDS_keys)) k"
      by (cases "d k") (simp_all add: restrict_map_def to_dict_lookup ex)
  qed
  have "GlobusSessionErrorAuthorizationParameters_from_dict ?d' =
        GlobusSessionErrorAuthorizationParameters_from_dict d"
    unfolding from_dict_eq_init extras
    by (simp add: get SUPPORTED_FIELDS_keys_eq)
  then show ?thesis using assms by simp
qed

theorem C1_round_trip_witness:
  "GlobusSessionErrorAuthorizationParameters_from_dict
     [''session_message'' \<mapsto> PStr ''m'', ''custom_key'' \<mapsto> PInt 1] =
   Inr \<lparr> session_message = PStr ''m'', session_required_identities = PNone,
         session_required_policies = PNone, session_required_single_domain = PNone,
         session_required_mfa = PNone, session_required_scopes = PNone,
         extra_fields = [''custom_key'' \<mapsto> PInt 1] \<rparr> \<and>
   GlobusSessionErrorAuthorizationParameters_from_dict
     (GlobusSessionErrorAuthorizationParameters_to_dict
        \<lparr> session_message = PStr ''m'', session_required_identities = PNone,
          session_required_policies = PNone, session_required_single_domain = PNone,
          session_required_mfa = PNone, session_required_scopes = PNone,
          extra_fields = [''custom_key'' \<mapsto> PInt 1] \<rparr> True) =
   Inr \<lparr> session_message = PStr ''m'', session_required_identities = PNone,
         session_required_policies = PNone, session_required_single_domain = PNone,
         session_required_mfa = PNone, session_required_scopes = PNone,
         extra_fields = [''custom_key'' \<mapsto> PInt 1] \<rparr>"
  using C1_from_dict_to_dict_round_trip [OF from_dict_example] from_dict_example
  by (intro conjI)

subsection \<open>Validation by the constructor\<close>

text \<open>
  C2. The constructor fails with a \<^verbatim>\<open>ValueError\<close> if and only if all six recognised
  fields are \<^verbatim>\<open>None\<close> or some recognised field that is not \<^verbatim>\<open>None\<close> is not an
  instance of its declared type (\<^verbatim>\<open>str\<close> for \<open>session_message\<close>, \<^verbatim>\<open>bool\<close> for
  \<open>session_required_mfa\<close>, \<^verbatim>\<open>list\<close> for the other four); otherwise it succeeds, and
  the instance holds each recognised field as given and the extra mapping, the empty
  mapping when none was given.
\<close>

theorem C2_init_fails_iff:
  "((\<exists>msg. GlobusSessionErrorAuthorizationParameters_init sm sri srp srsd srm srs extra
             = Inl (ValueError msg)) \<longleftrightarrow>
      (sm = PNone \<and> sri = PNone \<and> srp = PNone \<and> srsd = PNone \<and> srm = PNone \<and> srs = PNone) \<or>
      (sm \<noteq> PNone \<and> \<not> isinstance sm PyStr) \<or>
      (sri \<noteq> PNone \<and> \<not> isinstance sri PyList) \<or>
      (srp \<noteq> PNone \<and> \<not> isinstance srp PyList) \<or>
      (srsd \<noteq> PNone \<and> \<not> isinstance srsd PyList) \<or>
      (srm \<noteq> PNone \<and> \<not> isinstance srm PyBool) \<or>
      (srs \<noteq> PNone \<and> \<not> isinstance srs PyList)) \<and>
   ((\<exists>msg. GlobusSessionErrorAuthorizationParameters_init sm sri srp srsd srm srs extra
             = Inl (ValueError msg)) \<or>
    GlobusSessionErrorAuthorizationParameters_init sm sri srp srsd srm srs extra =
      Inr \<lparr> session_message = sm, session_required_identities = sri,
            session_required_policies = srp, session_required_single_domain = srsd,
            session_required_mfa = srm, session_required_scopes = srs,
            extra_fields = (case extra of None \<Rightarrow> Map.empty | Some e \<Rightarrow> e) \<rparr>)"
proof -
  let ?r = "GlobusSessionErrorAuthorizationParameters_init sm sri srp srsd srm srs extra"
  have fails: "(\<exists>e. ?r = Inl e) \<longleftrightarrow>
      (sm = PNone \<and> sri = PNone \<and> srp = PNone \<and> srsd = PNone \<and> srm = PNone \<and> srs = PNone) \<or>
      (sm \<noteq> PNone \<and> \<not> isinstance sm PyStr) \<or>
      (sri \<noteq> PNone \<and> \<not> isinstance sri PyList) \<or>
      (srp \<noteq> PNone \<and> \<not> isinstance srp PyList) \<or>
      (srsd \<noteq> PNone \<and> \<not> isinstance srsd PyList) \<or>
      (srm \<noteq> PNone \<and> \<not> isinstance srm PyBool) \<or>
      (srs \<noteq> PNone \<and> \<not> isinstance srs PyList)"
    unfolding init_Inl_iff field_type_ok_def by blast
  have succeeds: "(\<exists>e. ?r = Inl e) \<or>
      ?r = Inr \<lparr> session_message = sm, session_required_identities = sri,
            session_required_policies = srp, session_required_single_domain = srsd,
            session_required_mfa = srm, session_required_scopes = srs,
            extra_fields = (case extra of None \<Rightarrow> Map.empty | Some e \<Rightarrow> e) \<rparr>"
  proof (cases ?r)
    case (Inl e)
    then show ?thesis by blast
  next
    case (Inr x)
    then show ?thesis unfolding init_Inr_iff by simp
  qed
  show ?thesis
    unfolding ValueError_ex using fails succeeds by (intro conjI)
qed


theorem C2_init_witness:
  "(\<exists>msg. GlobusSessionErrorAuthorizationParameters_init
            PNone PNone PNone PNone (PStr ''yes'') PNone None = Inl (ValueError msg)) \<and>
   (\<exists>msg. GlobusSessionErrorAuthorizationParameters_init
            PNone PNone PNone PNone PNone PNone (Some [''custom_key'' \<mapsto> PInt 1])
          = Inl (ValueError msg)) \<and>
   GlobusSessionErrorAuthorizationParameters_init
     (PStr ''m'') PNone PNone PNone (PBool True) PNone None =
     Inr \<lparr> session_message = PStr ''m'', session_required_identities = PNone,
           session_required_policies = PNone, session_required_single_domain = PNone,
           session_required_mfa = PBool True, session_required_scopes = PNone,
           extra_fields = Map.empty \<rparr>"
proof (intro conjI)
  show "\<exists>msg. GlobusSessionErrorAuthorizationParameters_init
            PNone PNone PNone PNone (PStr ''yes'') PNone None = Inl (ValueError msg)"
    using C2_init_fails_iff [of PNone PNone PNone PNone "PStr ''yes''" PNone None, THEN conjunct1]
    by simp
  show "\<exists>msg. GlobusSessionErrorAuthorizationParameters_init
            PNone PNone PNone PNone PNone PNone (Some [''custom_key'' \<mapsto> PInt 1])
          = Inl (ValueError msg)"
    using C2_init_fails_iff [of PNone PNone PNone PNone PNone PNone "Some [''custom_key'' \<mapsto> PInt 1]",
        THEN conjunct1]
    by simp
  have "\<not> (\<exists>msg. GlobusSessionErrorAuthorizationParameters_init
     (PStr ''m'') PNone PNone PNone (PBool True) PNone None = Inl (ValueError msg))"
    using C2_init_fails_iff [of "PStr ''m''" PNone PNone PNone "PBool True" PNone None, THEN conjunct1]
    by simp
  then show "GlobusSessionErrorAuthorizationParameters_init
     (PStr ''m'') PNone PNone PNone (PBool True) PNone None =
     Inr \<lparr> session_message = PStr ''m'', session_required_identities = PNone,
           session_required_policies = PNone, session_required_single_domain = PNone,
           session_required_mfa = PBool True, session_required_scopes = PNone,
           extra_fields = Map.empty \<rparr>"
    using C2_init_fails_iff [of "PStr ''m''" PNone PNone PNone "PBool True" PNone None, THEN conjunct2]
    by simp
qed

subsection \<open>What the serialised authorization parameters contain\<close>

text \<open>
  C3. As stated, for every successfully constructed instance, the claim fails: a directly
  constructed instance may hold, in its extra fields, a recognised key whose stored field
  is \<^verbatim>\<open>None\<close>, and \<^verbatim>\<open>to_dict(include_extra=True)\<close> then contains that key (see
  the counterexample below). What holds for every instance \<open>x\<close>:
  \<^item> the result contains the name of every recognised field whose stored value is not
    \<^verbatim>\<open>None\<close>, for both values of \<^verbatim>\<open>include_extra\<close>;
  \<^item> with \<^verbatim>\<open>include_extra=False\<close> it maps exactly these names to the stored values
    and contains nothing else: no recognised field that is \<^verbatim>\<open>None\<close>, no extra field;
  \<^item> with \<^verbatim>\<open>include_extra=True\<close> it contains every stored extra field, and under
    every key that the extra fields do not have it is as with \<^verbatim>\<open>include_extra=False\<close>:
    a recognised field whose stored value is not \<^verbatim>\<open>None\<close> is mapped to its stored
    value, and nothing else is there; so the only exception to the claim is per key, a
    recognised name that is also a key of the extra fields, where the extra value stands;
  \<^item> in particular a recognised field whose stored value is \<^verbatim>\<open>None\<close> is in the
    result only if the extra fields have that key;
  \<^item> when no key of the extra fields is a recognised name, as for every instance built
    by \<^verbatim>\<open>from_dict\<close>, the result with \<^verbatim>\<open>include_extra=True\<close> is the non-null
    recognised fields with their stored values together with the extra fields;
  \<^item> the instance built from \<^verbatim>\<open>{"session_message": "m", "custom_key": 1}\<close> gives
    \<^verbatim>\<open>{"session_message": "m"}\<close> without and
    \<^verbatim>\<open>{"session_message": "m", "custom_key": 1}\<close> with the extra fields.
\<close>

theorem C3_to_dict_contents:
  "(\<forall>k \<in> set SUPPORTED_FIELDS_keys.
      getattr x k \<noteq> PNone \<longrightarrow>
        k \<in> dom (GlobusSessionErrorAuthorizationParameters_to_dict x include_extra)) \<and>
   (\<forall>k. GlobusSessionErrorAuthorizationParameters_to_dict x False k =
      (if k \<in> set SUPPORTED_FIELDS_keys \<and> getattr x k \<noteq> PNone
       then Some (getattr x k) else None)) \<and>
   extra_fields x \<subseteq>\<^sub>m GlobusSessionErrorAuthorizationParameters_to_dict x True \<and>
   (\<forall>k. GlobusSessionErrorAuthorizationParameters_to_dict x True k =
      (case extra_fields x k of
         Some v \<Rightarrow> Some v
       | None \<Rightarrow>
           (if k \<in> set SUPPORTED_FIELDS_keys \<and> getattr x k \<noteq> PNone
            then Some (getattr x k) else None))) \<and>
   (\<forall>k \<in> set SUPPORTED_FIELDS_keys.
      getattr x k = PNone \<longrightarrow>
        GlobusSessionErrorAuthorizationParameters_to_dict x True k = extra_fields x k) \<and>
   (dom (extra_fields x) \<inter> set SUPPORTED_FIELDS_keys = {} \<or>
    GlobusSessionErrorAuthorizationParameters_from_dict d = Inr x \<longrightarrow>
      (\<forall>k. GlobusSessionErrorAuthorizationParameters_to_dict x True k =
         (if k \<in> set SUPPORTED_FIELDS_keys
          then (if getattr x k \<noteq> PNone then Some (getattr x k) else None)
          else extra_fields x k))) \<and>
   (\<exists>x0. GlobusSessionErrorAuthorizationParameters_from_dict
            [''session_message'' \<mapsto> PStr ''m'', ''custom_key'' \<mapsto> PInt 1] = Inr x0 \<and>
         GlobusSessionErrorAuthorizationParameters_to_dict x0 False =
           [''session_message'' \<mapsto> PStr ''m''] \<and>
         GlobusSessionErrorAuthorizationParameters_to_dict x0 True =
           [''session_message'' \<mapsto> PStr ''m'', ''custom_key'' \<mapsto> PInt 1])"
proof (intro conjI)
  show "\<forall>k \<in> set SUPPORTED_FIELDS_keys.
      getattr x k \<noteq> PNone \<longrightarrow>
        k \<in> dom (GlobusSessionErrorAuthorizationParameters_to_dict x include_extra)"
    by (auto simp: to_dict_lookup dom_def)
  show "\<forall>k. GlobusSessionErrorAuthorizationParameters_to_dict x False k =
      (if k \<in> set SUPPORTED_FIELDS_keys \<and> getattr x k \<noteq> PNone
       then Some (getattr x k) else None)"
    by (simp add: to_dict_False_lookup)
  show "extra_fields x \<subseteq>\<^sub>m GlobusSessionErrorAuthorizationParameters_to_dict x True"
    by (rule extra_fields_le_to_dict)
  show "\<forall>k. GlobusSessionErrorAuthorizationParameters_to_dict x True k =
      (case extra_fields x k of
         Some v \<Rightarrow> Some v
       | None \<Rightarrow>
           (if k \<in> set SUPPORTED_FIELDS_keys \<and> getattr x k \<noteq> PNone
            then Some (getattr x k) else None))"
    by (simp add: to_dict_lookup split: option.split)
  show "\<forall>k \<in> set SUPPORTED_FIELDS_keys.
      getattr x k = PNone \<longrightarrow>
        GlobusSessionErrorAuthorizationParameters_to_dict x True k = extra_fields x k"
    by (auto simp: to_dict_lookup)
  show "dom (extra_fields x) \<inter> set SUPPORTED_FIELDS_keys = {} \<or>
    GlobusSessionErrorAuthorizationParameters_from_dict d = Inr x \<longrightarrow>
      (\<forall>k. GlobusSessionErrorAuthorizationParameters_to_dict x True k =
         (if k \<in> set SUPPORTED_FIELDS_keys
          then (if getattr x k \<noteq> PNone then Some (getattr x k) else None)
          else extra_fields x k))"
    using from_dict_extra_disjoint[of d x] to_dict_True_disjoint[of x] by blast
  show "\<exists>x0. GlobusSessionErrorAuthorizationParameters_from_dict
            [''session_message'' \<mapsto> PStr ''m'', ''custom_key'' \<mapsto> PInt 1] = Inr x0 \<and>
         GlobusSessionErrorAuthorizationParameters_to_dict x0 False =
           [''session_message'' \<mapsto> PStr ''m''] \<and>
         GlobusSessionErrorAuthorizationParameters_to_dict x0 True =
           [''session_message'' \<mapsto> PStr ''m'', ''custom_key'' \<mapsto> PInt 1]"
    using from_dict_example to_dict_example_False to_dict_example_True by blast
qed

text \<open>
  The theorem at the instance of the last item, and at the instance with
  \<^verbatim>\<open>session_message="m"\<close> and \<^verbatim>\<open>extra={"session_required_mfa": True}\<close>, where
  \<open>session_message\<close> keeps its stored value and \<open>session_required_mfa\<close> has the extra
  value.
\<close>

theorem C3_to_dict_witness:
  "GlobusSessionErrorAuthorizationParameters_to_dict
     \<lparr> session_message = PStr ''m'', session_required_identities = PNone,
       session_required_policies = PNone, session_required_single_domain = PNone,
       session_required_mfa = PNone, session_required_scopes = PNone,
       extra_fields = [''custom_key'' \<mapsto> PInt 1] \<rparr> True ''session_message'' = Some (PStr ''m'') \<and>
   GlobusSessionErrorAuthorizationParameters_to_dict
     \<lparr> session_message = PStr ''m'', session_required_identities = PNone,
       session_required_policies = PNone, session_required_single_domain = PNone,
       session_required_mfa = PNone, session_required_scopes = PNone,
       extra_fields = [''custom_key'' \<mapsto> PInt 1] \<rparr> True ''session_required_mfa'' = None \<and>
   GlobusSessionErrorAuthorizationParameters_to_dict
     \<lparr> session_message = PStr ''m'', session_required_identities = PNone,
       session_required_policies = PNone, session_required_single_domain = PNone,
       session_required_mfa = PNone, session_required_scopes = PNone,
       extra_fields = [''custom_key'' \<mapsto> PInt 1] \<rparr> True ''custom_key'' = Some (PInt 1) \<and>
   GlobusSessionErrorAuthorizationParameters_to_dict
     \<lparr> session_message = PStr ''m'', session_required_identities = PNone,
       session_required_policies = PNone, session_required_single_domain = PNone,
       session_required_mfa = PNone, session_required_scopes = PNone,
       extra_fields = [''session_required_mfa'' \<mapsto> PBool True] \<rparr> True ''session_message''
     = Some (PStr ''m'') \<and>
   GlobusSessionErrorAuthorizationParameters_to_dict
     \<lparr> session_message = PStr ''m'', session_required_identities = PNone,
       session_required_policies = PNone, session_required_single_domain = PNone,
       session_required_mfa = PNone, session_required_scopes = PNone,
       extra_fields = [''session_required_mfa'' \<mapsto> PBool True] \<rparr> True ''session_required_mfa''
     = Some (PBool True) \<and>
   GlobusSessionErrorAuthorizationParameters_to_dict
     \<lparr> session_message = PStr ''m'', session_required_identities = PNone,
       session_required_policies = PNone, session_required_single_domain = PNone,
       session_required_mfa = PNone, session_required_scopes = PNone,
       extra_fields = [''session_required_mfa'' \<mapsto> PBool True] \<rparr> True ''session_required_scopes''
     = None"
proof -
  let ?x = "\<lparr> session_message = PStr ''m'', session_required_identities = PNone,
       session_required_policies = PNone, session_required_single_domain = PNone,
       session_required_mfa = PNone, session_required_scopes = PNone,
       extra_fields = [''custom_key'' \<mapsto> PInt 1] \<rparr>"
  let ?y = "\<lparr> session_message = PStr ''m'', session_required_identities = PNone,
       session_required_policies = PNone, session_required_single_domain = PNone,
       session_required_mfa = PNone, session_required_scopes = PNone,
       extra_fields = [''session_required_mfa'' \<mapsto> PBool True] \<rparr>"
  let ?d = "[''session_message'' \<mapsto> PStr ''m'', ''custom_key'' \<mapsto> PInt 1]"
  have built: "dom (extra_fields ?x) \<inter> set SUPPORTED_FIELDS_keys = {} \<or>
      GlobusSessionErrorAuthorizationParameters_from_dict ?d = Inr ?x"
    using from_dict_example by simp
  have "\<forall>k. GlobusSessionErrorAuthorizationParameters_to_dict ?x True k =
         (if k \<in> set SUPPORTED_FIELDS_keys
          then (if getattr ?x k \<noteq> PNone then Some (getattr ?x k) else None)
          else extra_fields ?x k)"
    using C3_to_dict_contents [of ?x True ?d] built by blast
  then have disjoint: "GlobusSessionErrorAuthorizationParameters_to_dict ?x True ''session_message''
        = Some (PStr ''m'') \<and>
      GlobusSessionErrorAuthorizationParameters_to_dict ?x True ''session_required_mfa'' = None \<and>
      GlobusSessionErrorAuthorizationParameters_to_dict ?x True ''custom_key'' = Some (PInt 1)"
    by (simp add: SUPPORTED_FIELDS_keys_eq getattr_def)
  have "\<forall>k. GlobusSessionErrorAuthorizationParameters_to_dict ?y True k =
      (case extra_fields ?y k of
         Some v \<Rightarrow> Some v
       | None \<Rightarrow>
           (if k \<in> set SUPPORTED_FIELDS_keys \<and> getattr ?y k \<noteq> PNone
            then Some (getattr ?y k) else None))"
    by (rule C3_to_dict_contents [of ?y True ?d,
          THEN conjunct2, THEN conjunct2, THEN conjunct2, THEN conjunct1])
  then have overlap: "GlobusSessionErrorAuthorizationParameters_to_dict ?y True ''session_message''
        = Some (PStr ''m'') \<and>
      GlobusSessionErrorAuthorizationParameters_to_dict ?y True ''session_required_mfa''
        = Some (PBool True) \<and>
      GlobusSessionErrorAuthorizationParameters_to_dict ?y True ''session_required_scopes'' = None"
    by (simp add: SUPPORTED_FIELDS_keys_eq getattr_def)
  from disjoint overlap show ?thesis
    by (simp only: simp_thms)
qed

text \<open>
  The constructor accepts \<^verbatim>\<open>session_message="m"\<close> with
  \<^verbatim>\<open>extra={"session_required_mfa": True}\<close>; the stored \<open>session_required_mfa\<close> is
  \<^verbatim>\<open>None\<close>, and \<^verbatim>\<open>to_dict(include_extra=True)\<close> has the key \<open>session_required_mfa\<close>.
\<close>

theorem C3_to_dict_counterexample:
  "GlobusSessionErrorAuthorizationParameters_init (PStr ''m'') PNone PNone PNone PNone PNone
     (Some [''session_required_mfa'' \<mapsto> PBool True]) =
   Inr \<lparr> session_message = PStr ''m'', session_required_identities = PNone,
         session_required_policies = PNone, session_required_single_domain = PNone,
         session_required_mfa = PNone, session_required_scopes = PNone,
         extra_fields = [''session_required_mfa'' \<mapsto> PBool True] \<rparr> \<and>
   session_required_mfa
     \<lparr> session_message = PStr ''m'', session_required_identities = PNone,
       session_required_policies = PNone, session_required_single_domain = PNone,
       session_required_mfa = PNone, session_required_scopes = PNone,
       extra_fields = [''session_required_mfa'' \<mapsto> PBool True] \<rparr> = PNone \<and>
   GlobusSessionErrorAuthorizationParameters_to_dict
     \<lparr> session_message = PStr ''m'', session_required_identities = PNone,
       session_required_policies = PNone, session_required_single_domain = PNone,
       session_required_mfa = PNone, session_required_scopes = PNone,
       extra_fields = [''session_required_mfa'' \<mapsto> PBool True] \<rparr> True ''session_required_mfa''
     = Some (PBool True)"
  by (simp add: init_Inr_iff field_type_ok_def to_dict_lookup)

subsection \<open>A session error needs a code\<close>

text \<open>
  C4. With the code \<^verbatim>\<open>None\<close> the constructor of the session error fails with a
  \<^verbatim>\<open>ValueError\<close>, whatever the authorization parameters (an instance, a dictionary
  that parses or does not, \<^verbatim>\<open>None\<close>, any other value) and whatever the extra mapping:
  the code is tested first.
\<close>

theorem C4_code_None_fails:
  "GlobusSessionError_init PNone authorization_parameters' extra =
     Inl (ValueError (''Must have a '' @ [CHR 0x27] @ ''code'' @ [CHR 0x27]))"
  by (simp add: GlobusSessionError_init_def)

text \<open>
  The theorem with authorization parameters that would be accepted (a dictionary, an
  instance) and with \<^verbatim>\<open>None\<close>, which would be refused.
\<close>

theorem C4_code_None_witness:
  "GlobusSessionError_init PNone
     (Value (PDict [''session_required_mfa'' \<mapsto> PBool True])) None =
     Inl (ValueError (''Must have a '' @ [CHR 0x27] @ ''code'' @ [CHR 0x27])) \<and>
   GlobusSessionError_init PNone (Value PNone) (Some [''extra_x'' \<mapsto> PInt 5]) =
     Inl (ValueError (''Must have a '' @ [CHR 0x27] @ ''code'' @ [CHR 0x27])) \<and>
   GlobusSessionError_init PNone
     (Instance \<lparr> session_message = PNone, session_required_identities = PNone,
                 session_required_policies = PNone, session_required_single_domain = PNone,
                 session_required_mfa = PBool True, session_required_scopes = PNone,
                 extra_fields = Map.empty \<rparr>) None =
     Inl (ValueError (''Must have a '' @ [CHR 0x27] @ ''code'' @ [CHR 0x27]))"
  using C4_code_None_fails [of "Value (PDict [''session_required_mfa'' \<mapsto> PBool True])" None]
    C4_code_None_fails [of "Value PNone" "Some [''extra_x'' \<mapsto> PInt 5]"]
    C4_code_None_fails [of "Instance \<lparr> session_message = PNone, session_required_identities = PNone,
                 session_required_policies = PNone, session_required_single_domain = PNone,
                 session_required_mfa = PBool True, session_required_scopes = PNone,
                 extra_fields = Map.empty \<rparr>" None]
  by (intro conjI)

subsection \<open>The authorization parameters of a session error\<close>

text \<open>
  C5. With a code that is not \<^verbatim>\<open>None\<close>: an argument that is already an instance of
  the authorization parameters is stored as it is; a dictionary is parsed by
  \<^verbatim>\<open>GlobusSessionErrorAuthorizationParameters.from_dict\<close>, whose \<^verbatim>\<open>ValueError\<close>
  is passed on and whose result is stored otherwise; \<^verbatim>\<open>None\<close> and every other value
  make the constructor fail with a \<^verbatim>\<open>ValueError\<close>.
\<close>

theorem C5_authorization_parameters_argument:
  assumes "code' \<noteq> PNone"
  shows "GlobusSessionError_init code' (Instance ap) extra =
           Inr \<lparr> code = code', authorization_parameters = ap,
                 top_extra_fields = (case extra of None \<Rightarrow> Map.empty | Some e \<Rightarrow> e) \<rparr> \<and>
         GlobusSessionError_init code' (Value (PDict param_dict)) extra =
           (case GlobusSessionErrorAuthorizationParameters_from_dict param_dict of
              Inl e \<Rightarrow> Inl e
            | Inr ap' \<Rightarrow>
                Inr \<lparr> code = code', authorization_parameters = ap',
                      top_extra_fields = (case extra of None \<Rightarrow> Map.empty | Some e \<Rightarrow> e) \<rparr>) \<and>
         ((\<forall>d. v \<noteq> PDict d) \<longrightarrow>
            (\<exists>msg. GlobusSessionError_init code' (Value v) extra = Inl (ValueError msg)))"
  using assms GlobusSessionError_init_other[of code' v extra]
  by (simp add: GlobusSessionError_init_Instance GlobusSessionError_init_dict)

text \<open>
  The theorem at the code \<^verbatim>\<open>"c"\<close>, with an instance, with the dictionary
  \<^verbatim>\<open>{"session_required_mfa": True}\<close> and with \<^verbatim>\<open>None\<close>.
\<close>

theorem C5_authorization_parameters_witness:
  "GlobusSessionError_init (PStr ''c'')
     (Instance \<lparr> session_message = PStr ''m'', session_required_identities = PNone,
                 session_required_policies = PNone, session_required_single_domain = PNone,
                 session_required_mfa = PNone, session_required_scopes = PNone,
                 extra_fields = Map.empty \<rparr>) None =
     Inr \<lparr> code = PStr ''c'',
           authorization_parameters =
             \<lparr> session_message = PStr ''m'', session_required_identities = PNone,
               session_required_policies = PNone, session_required_single_domain = PNone,
               session_required_mfa = PNone, session_required_scopes = PNone,
               extra_fields = Map.empty \<rparr>,
           top_extra_fields = Map.empty \<rparr> \<and>
   GlobusSessionError_init (PStr ''c'')
     (Value (PDict [''session_required_mfa'' \<mapsto> PBool True])) None =
     Inr \<lparr> code = PStr ''c'',
           authorization_parameters =
             \<lparr> session_message = PNone, session_required_identities = PNone,
               session_required_policies = PNone, session_required_single_domain = PNone,
               session_required_mfa = PBool True, session_required_scopes = PNone,
               extra_fields = Map.empty \<rparr>,
           top_extra_fields = Map.empty \<rparr> \<and>
   (\<exists>msg. GlobusSessionError_init (PStr ''c'') (Value PNone) None = Inl (ValueError msg))"
  using C5_authorization_parameters_argument
          [of "PStr ''c''"
              "\<lparr> session_message = PStr ''m'', session_required_identities = PNone,
                 session_required_policies = PNone, session_required_single_domain = PNone,
                 session_required_mfa = PNone, session_required_scopes = PNone,
                 extra_fields = Map.empty \<rparr>"
              None "[''session_required_mfa'' \<mapsto> PBool True]" PNone]
  by (simp add: authorization_parameters_example)

subsection \<open>Parsing a mapping\<close>

text \<open>
  C6. \<^verbatim>\<open>from_dict\<close> reads each recognised field under exactly its name, \<^verbatim>\<open>None\<close>
  when the key is missing, takes every other item of the mapping as an extra field, and
  calls the constructor with these. So a returned instance holds the values read and the
  remaining items, and has passed both checks of the constructor (some recognised field is
  not \<^verbatim>\<open>None\<close>, every recognised field is \<^verbatim>\<open>None\<close> or of its type); a failure is a
  \<^verbatim>\<open>ValueError\<close> and no instance; and a mapping in which every recognised key is missing
  or mapped to \<^verbatim>\<open>None\<close> fails.
\<close>

theorem C6_from_dict_partition:
  "GlobusSessionErrorAuthorizationParameters_from_dict param_dict =
     GlobusSessionErrorAuthorizationParameters_init
       (case param_dict ''session_message'' of None \<Rightarrow> PNone | Some v \<Rightarrow> v)
       (case param_dict ''session_required_identities'' of None \<Rightarrow> PNone | Some v \<Rightarrow> v)
       (case param_dict ''session_required_policies'' of None \<Rightarrow> PNone | Some v \<Rightarrow> v)
       (case param_dict ''session_required_single_domain'' of None \<Rightarrow> PNone | Some v \<Rightarrow> v)
       (case param_dict ''session_required_mfa'' of None \<Rightarrow> PNone | Some v \<Rightarrow> v)
       (case param_dict ''session_required_scopes'' of None \<Rightarrow> PNone | Some v \<Rightarrow> v)
       (Some (param_dict |` (- set SUPPORTED_FIELDS_keys))) \<and>
   (\<forall>x. GlobusSessionErrorAuthorizationParameters_from_dict param_dict = Inr x \<longrightarrow>
      (\<forall>k \<in> set SUPPORTED_FIELDS_keys.
         getattr x k = (case param_dict k of None \<Rightarrow> PNone | Some v \<Rightarrow> v)) \<and>
      extra_fields x = param_dict |` (- set SUPPORTED_FIELDS_keys) \<and>
      (\<exists>k \<in> set SUPPORTED_FIELDS_keys. getattr x k \<noteq> PNone) \<and>
      (\<forall>(k, ty) \<in> set SUPPORTED_FIELDS. getattr x k = PNone \<or> isinstance (getattr x k) ty)) \<and>
   ((\<exists>msg. GlobusSessionErrorAuthorizationParameters_from_dict param_dict = Inl (ValueError msg)) \<or>
    (\<exists>x. GlobusSessionErrorAuthorizationParameters_from_dict param_dict = Inr x)) \<and>
   ((\<forall>k \<in> set SUPPORTED_FIELDS_keys. param_dict k = None \<or> param_dict k = Some PNone) \<longrightarrow>
      (\<exists>msg. GlobusSessionErrorAuthorizationParameters_from_dict param_dict = Inl (ValueError msg)))"
proof (intro conjI)
  show "GlobusSessionErrorAuthorizationParameters_from_dict param_dict =
     GlobusSessionErrorAuthorizationParameters_init
       (case param_dict ''session_message'' of None \<Rightarrow> PNone | Some v \<Rightarrow> v)
       (case param_dict ''session_required_identities'' of None \<Rightarrow> PNone | Some v \<Rightarrow> v)
       (case param_dict ''session_required_policies'' of None \<Rightarrow> PNone | Some v \<Rightarrow> v)
       (case param_dict ''session_required_single_domain'' of None \<Rightarrow> PNone | Some v \<Rightarrow> v)
       (case param_dict ''session_required_mfa'' of None \<Rightarrow> PNone | Some v \<Rightarrow> v)
       (case param_dict ''session_required_scopes'' of None \<Rightarrow> PNone | Some v \<Rightarrow> v)
       (Some (param_dict |` (- set SUPPORTED_FIELDS_keys)))"
    unfolding from_dict_eq_init dict_get_def by (rule refl)
  show "\<forall>x. GlobusSessionErrorAuthorizationParameters_from_dict param_dict = Inr x \<longrightarrow>
      (\<forall>k \<in> set SUPPORTED_FIELDS_keys.
         getattr x k = (case param_dict k of None \<Rightarrow> PNone | Some v \<Rightarrow> v)) \<and>
      extra_fields x = param_dict |` (- set SUPPORTED_FIELDS_keys) \<and>
      (\<exists>k \<in> set SUPPORTED_FIELDS_keys. getattr x k \<noteq> PNone) \<and>
      (\<forall>(k, ty) \<in> set SUPPORTED_FIELDS. getattr x k = PNone \<or> isinstance (getattr x k) ty)"
  proof (intro allI impI)
    fix x
    assume built: "GlobusSessionErrorAuthorizationParameters_from_dict param_dict = Inr x"
    have "\<forall>k \<in> set SUPPORTED_FIELDS_keys.
         getattr x k = (case param_dict k of None \<Rightarrow> PNone | Some v \<Rightarrow> v)"
      using from_dict_fields(2)[OF built] by (simp add: dict_get_def)
    then show "(\<forall>k \<in> set SUPPORTED_FIELDS_keys.
         getattr x k = (case param_dict k of None \<Rightarrow> PNone | Some v \<Rightarrow> v)) \<and>
      extra_fields x = param_dict |` (- set SUPPORTED_FIELDS_keys) \<and>
      (\<exists>k \<in> set SUPPORTED_FIELDS_keys. getattr x k \<noteq> PNone) \<and>
      (\<forall>(k, ty) \<in> set SUPPORTED_FIELDS. getattr x k = PNone \<or> isinstance (getattr x k) ty)"
      using from_dict_fields(1)[OF built] from_dict_valid[OF built] by blast
  qed
  show "(\<exists>msg. GlobusSessionErrorAuthorizationParameters_from_dict param_dict = Inl (ValueError msg)) \<or>
    (\<exists>x. GlobusSessionErrorAuthorizationParameters_from_dict param_dict = Inr x)"
    unfolding ValueError_ex
    by (cases "GlobusSessionErrorAuthorizationParameters_from_dict param_dict") simp_all
  show "(\<forall>k \<in> set SUPPORTED_FIELDS_keys. param_dict k = None \<or> param_dict k = Some PNone) \<longrightarrow>
      (\<exists>msg. GlobusSessionErrorAuthorizationParameters_from_dict param_dict = Inl (ValueError msg))"
  proof
    assume "\<forall>k \<in> set SUPPORTED_FIELDS_keys. param_dict k = None \<or> param_dict k = Some PNone"
    then have "\<forall>k \<in> set SUPPORTED_FIELDS_keys. dict_get param_dict k = PNone"
      by (auto simp: dict_get_def)
    then show "\<exists>msg. GlobusSessionErrorAuthorizationParameters_from_dict param_dict
                 = Inl (ValueError msg)"
      using from_dict_all_null by blast
  qed
qed

text \<open>
  The theorem at \<^verbatim>\<open>{"session_message": "m", "custom_key": 1}\<close>, which parses, and at
  \<^verbatim>\<open>{"custom_key": 1}\<close>, which has no recognised key and fails.
\<close>

theorem C6_from_dict_partition_witness:
  "extra_fields
     \<lparr> session_message = PStr ''m'', session_required_identities = PNone,
       session_required_policies = PNone, session_required_single_domain = PNone,
       session_required_mfa = PNone, session_required_scopes = PNone,
       extra_fields = [''custom_key'' \<mapsto> PInt 1] \<rparr> =
     [''session_message'' \<mapsto> PStr ''m'', ''custom_key'' \<mapsto> PInt 1]
       |` (- set SUPPORTED_FIELDS_keys) \<and>
   (\<exists>msg. GlobusSessionErrorAuthorizationParameters_from_dict [''custom_key'' \<mapsto> PInt 1]
          = Inl (ValueError msg))"
proof
  show "extra_fields
     \<lparr> session_message = PStr ''m'', session_required_identities = PNone,
       session_required_policies = PNone, session_required_single_domain = PNone,
       session_required_mfa = PNone, session_required_scopes = PNone,
       extra_fields = [''custom_key'' \<mapsto> PInt 1] \<rparr> =
     [''session_message'' \<mapsto> PStr ''m'', ''custom_key'' \<mapsto> PInt 1]
       |` (- set SUPPORTED_FIELDS_keys)"
    using C6_from_dict_partition
            [of "[''session_message'' \<mapsto> PStr ''m'', ''custom_key'' \<mapsto> PInt 1]"]
      from_dict_example
    by blast
  have "\<forall>k \<in> set SUPPORTED_FIELDS_keys.
          [''custom_key'' \<mapsto> PInt 1] k = None \<or> [''custom_key'' \<mapsto> PInt 1] k = Some PNone"
    by (simp add: SUPPORTED_FIELDS_keys_eq)
  then show "\<exists>msg. GlobusSessionErrorAuthorizationParameters_from_dict [''custom_key'' \<mapsto> PInt 1]
          = Inl (ValueError msg)"
    using C6_from_dict_partition [of "[''custom_key'' \<mapsto> PInt 1]"] by blast
qed

subsection \<open>Serialising a session error\<close>

text \<open>
  C7. As stated, for every successfully constructed session error, the claim fails: a
  directly constructed session error may hold, in its extra fields, the key
  \<open>authorization_parameters\<close> or \<open>code\<close>, and with \<^verbatim>\<open>include_extra=True\<close> the merged
  extra field replaces the entry (see the counterexample below). What holds for every
  session error \<open>e\<close>:
  \<^item> the result always has the keys \<open>code\<close> and \<open>authorization_parameters\<close>;
  \<^item> with \<^verbatim>\<open>include_extra=False\<close> it is exactly the stored code and the authorization
    parameters serialised by their \<^verbatim>\<open>to_dict(include_extra=False)\<close>;
  \<^item> with \<^verbatim>\<open>include_extra=True\<close> it is the stored code and the authorization
    parameters serialised by their \<^verbatim>\<open>to_dict(include_extra=True)\<close>, with the top-level
    extra fields merged in, an extra field replacing the entry of the same key;
  \<^item> when neither \<open>code\<close> nor \<open>authorization_parameters\<close> is a key of the extra fields,
    as for every session error built by \<^verbatim>\<open>from_dict\<close>, the two entries are the stored
    code and the serialised authorization parameters also with \<^verbatim>\<open>include_extra=True\<close>;
  \<^item> the session error built by \<^verbatim>\<open>from_dict\<close> from \<^verbatim>\<open>{"code": "c",
    "authorization_parameters": {"session_required_mfa": True}, "extra_x": 5}\<close> gives that
    dictionary back with \<^verbatim>\<open>include_extra=True\<close>.
\<close>

theorem C7_session_error_to_dict:
  "''code'' \<in> dom (GlobusSessionError_to_dict e include_extra) \<and>
   ''authorization_parameters'' \<in> dom (GlobusSessionError_to_dict e include_extra) \<and>
   GlobusSessionError_to_dict e False =
     [''code'' \<mapsto> code e,
      ''authorization_parameters'' \<mapsto>
        PDict (GlobusSessionErrorAuthorizationParameters_to_dict
                 (authorization_parameters e) False)] \<and>
   GlobusSessionError_to_dict e True =
     [''code'' \<mapsto> code e,
      ''authorization_parameters'' \<mapsto>
        PDict (GlobusSessionErrorAuthorizationParameters_to_dict
                 (authorization_parameters e) True)] ++ top_extra_fields e \<and>
   top_extra_fields e \<subseteq>\<^sub>m GlobusSessionError_to_dict e True \<and>
   (dom (top_extra_fields e) \<inter> set GlobusSessionError_SUPPORTED_FIELDS_keys = {} \<or>
    GlobusSessionError_from_dict d = Inr e \<longrightarrow>
      GlobusSessionError_to_dict e True ''code'' = Some (code e) \<and>
      GlobusSessionError_to_dict e True ''authorization_parameters'' =
        Some (PDict (GlobusSessionErrorAuthorizationParameters_to_dict
                       (authorization_parameters e) True)) \<and>
      (\<forall>k. k \<notin> set GlobusSessionError_SUPPORTED_FIELDS_keys \<longrightarrow>
           GlobusSessionError_to_dict e True k = top_extra_fields e k)) \<and>
   (\<exists>e0. GlobusSessionError_from_dict
            [''code'' \<mapsto> PStr ''c'',
             ''authorization_parameters'' \<mapsto> PDict [''session_required_mfa'' \<mapsto> PBool True],
             ''extra_x'' \<mapsto> PInt 5] = Inr e0 \<and>
         GlobusSessionError_to_dict e0 True =
           [''code'' \<mapsto> PStr ''c'',
            ''authorization_parameters'' \<mapsto> PDict [''session_required_mfa'' \<mapsto> PBool True],
            ''extra_x'' \<mapsto> PInt 5])"
proof (intro conjI)
  show "''code'' \<in> dom (GlobusSessionError_to_dict e include_extra)"
    by (auto simp: GlobusSessionError_to_dict_lookup dom_def)
  show "''authorization_parameters'' \<in> dom (GlobusSessionError_to_dict e include_extra)"
    by (auto simp: GlobusSessionError_to_dict_lookup dom_def)
  show "GlobusSessionError_to_dict e False =
     [''code'' \<mapsto> code e,
      ''authorization_parameters'' \<mapsto>
        PDict (GlobusSessionErrorAuthorizationParameters_to_dict
                 (authorization_parameters e) False)]"
    by (simp add: GlobusSessionError_to_dict_def)
  show "GlobusSessionError_to_dict e True =
     [''code'' \<mapsto> code e,
      ''authorization_parameters'' \<mapsto>
        PDict (GlobusSessionErrorAuthorizationParameters_to_dict
                 (authorization_parameters e) True)] ++ top_extra_fields e"
    by (simp add: GlobusSessionError_to_dict_def)
  show "top_extra_fields e \<subseteq>\<^sub>m GlobusSessionError_to_dict e True"
    by (auto simp: map_le_def GlobusSessionError_to_dict_lookup)
  show "dom (top_extra_fields e) \<inter> set GlobusSessionError_SUPPORTED_FIELDS_keys = {} \<or>
    GlobusSessionError_from_dict d = Inr e \<longrightarrow>
      GlobusSessionError_to_dict e True ''code'' = Some (code e) \<and>
      GlobusSessionError_to_dict e True ''authorization_parameters'' =
        Some (PDict (GlobusSessionErrorAuthorizationParameters_to_dict
                       (authorization_parameters e) True)) \<and>
      (\<forall>k. k \<notin> set GlobusSessionError_SUPPORTED_FIELDS_keys \<longrightarrow>
           GlobusSessionError_to_dict e True k = top_extra_fields e k)"
  proof
    assume "dom (top_extra_fields e) \<inter> set GlobusSessionError_SUPPORTED_FIELDS_keys = {} \<or>
      GlobusSessionError_from_dict d = Inr e"
    then have "dom (top_extra_fields e) \<inter> set GlobusSessionError_SUPPORTED_FIELDS_keys = {}"
      using GlobusSessionError_from_dict_extra_disjoint[of d e] by blast
    then have "top_extra_fields e ''code'' = None"
      and "top_extra_fields e ''authorization_parameters'' = None"
      by (auto simp: GlobusSessionError_SUPPORTED_FIELDS_keys_def)
    then show "GlobusSessionError_to_dict e True ''code'' = Some (code e) \<and>
      GlobusSessionError_to_dict e True ''authorization_parameters'' =
        Some (PDict (GlobusSessionErrorAuthorizationParameters_to_dict
                       (authorization_parameters e) True)) \<and>
      (\<forall>k. k \<notin> set GlobusSessionError_SUPPORTED_FIELDS_keys \<longrightarrow>
           GlobusSessionError_to_dict e True k = top_extra_fields e k)"
      by (auto simp: GlobusSessionError_to_dict_lookup GlobusSessionError_SUPPORTED_FIELDS_keys_def)
  qed
  show "\<exists>e0. GlobusSessionError_from_dict
            [''code'' \<mapsto> PStr ''c'',
             ''authorization_parameters'' \<mapsto> PDict [''session_required_mfa'' \<mapsto> PBool True],
             ''extra_x'' \<mapsto> PInt 5] = Inr e0 \<and>
         GlobusSessionError_to_dict e0 True =
           [''code'' \<mapsto> PStr ''c'',
            ''authorization_parameters'' \<mapsto> PDict [''session_required_mfa'' \<mapsto> PBool True],
            ''extra_x'' \<mapsto> PInt 5]"
    using session_error_example session_error_example_to_dict by blast
qed


text \<open>The theorem at the session error of the last item.\<close>

theorem C7_session_error_to_dict_witness:
  "GlobusSessionError_to_dict
     \<lparr> code = PStr ''c'',
       authorization_parameters =
         \<lparr> session_message = PNone, session_required_identities = PNone,
           session_required_policies = PNone, session_required_single_domain = PNone,
           session_required_mfa = PBool True, session_required_scopes = PNone,
           extra_fields = Map.empty \<rparr>,
       top_extra_fields = [''extra_x'' \<mapsto> PInt 5] \<rparr> True ''code'' = Some (PStr ''c'') \<and>
   GlobusSessionError_to_dict
     \<lparr> code = PStr ''c'',
       authorization_parameters =
         \<lparr> session_message = PNone, session_required_identities = PNone,
           session_required_policies = PNone, session_required_single_domain = PNone,
           session_required_mfa = PBool True, session_required_scopes = PNone,
           extra_fields = Map.empty \<rparr>,
       top_extra_fields = [''extra_x'' \<mapsto> PInt 5] \<rparr> True ''authorization_parameters'' =
     Some (PDict [''session_required_mfa'' \<mapsto> PBool True]) \<and>
   GlobusSessionError_to_dict
     \<lparr> code = PStr ''c'',
       authorization_parameters =
         \<lparr> session_message = PNone, session_required_identities = PNone,
           session_required_policies = PNone, session_required_single_domain = PNone,
           session_required_mfa = PBool True, session_required_scopes = PNone,
           extra_fields = Map.empty \<rparr>,
       top_extra_fields = [''extra_x'' \<mapsto> PInt 5] \<rparr> True ''extra_x'' = Some (PInt 5)"
proof -
  let ?e = "\<lparr> code = PStr ''c'',
       authorization_parameters =
         \<lparr> session_message = PNone, session_required_identities = PNone,
           session_required_policies = PNone, session_required_single_domain = PNone,
           session_required_mfa = PBool True, session_required_scopes = PNone,
           extra_fields = Map.empty \<rparr>,
       top_extra_fields = [''extra_x'' \<mapsto> PInt 5] \<rparr>"
  let ?d = "[''code'' \<mapsto> PStr ''c'',
      ''authorization_parameters'' \<mapsto> PDict [''session_required_mfa'' \<mapsto> PBool True],
      ''extra_x'' \<mapsto> PInt 5]"
  have built: "dom (top_extra_fields ?e) \<inter> set GlobusSessionError_SUPPORTED_FIELDS_keys = {} \<or>
      GlobusSessionError_from_dict ?d = Inr ?e"
    using session_error_example by simp
  have "GlobusSessionError_to_dict ?e True ''code'' = Some (code ?e) \<and>
      GlobusSessionError_to_dict ?e True ''authorization_parameters'' =
        Some (PDict (GlobusSessionErrorAuthorizationParameters_to_dict
                       (authorization_parameters ?e) True)) \<and>
      (\<forall>k. k \<notin> set GlobusSessionError_SUPPORTED_FIELDS_keys \<longrightarrow>
           GlobusSessionError_to_dict ?e True k = top_extra_fields ?e k)"
    using C7_session_error_to_dict [of ?e True ?d] built by blast
  then show ?thesis
    by (simp add: authorization_parameters_example_to_dict
        GlobusSessionError_SUPPORTED_FIELDS_keys_def)
qed

text \<open>
  The constructor accepts the code \<^verbatim>\<open>"c"\<close>, an instance built from
  \<^verbatim>\<open>{"session_required_mfa": True}\<close> and \<^verbatim>\<open>extra={"authorization_parameters": 5}\<close>;
  with \<^verbatim>\<open>include_extra=True\<close> the entry \<open>authorization_parameters\<close> of the result is
  \<open>5\<close>, not the serialised authorization parameters.
\<close>

theorem C7_session_error_to_dict_counterexample:
  "GlobusSessionError_init (PStr ''c'')
     (Instance \<lparr> session_message = PNone, session_required_identities = PNone,
                 session_required_policies = PNone, session_required_single_domain = PNone,
                 session_required_mfa = PBool True, session_required_scopes = PNone,
                 extra_fields = Map.empty \<rparr>)
     (Some [''authorization_parameters'' \<mapsto> PInt 5]) =
   Inr \<lparr> code = PStr ''c'',
         authorization_parameters =
           \<lparr> session_message = PNone, session_required_identities = PNone,
             session_required_policies = PNone, session_required_single_domain = PNone,
             session_required_mfa = PBool True, session_required_scopes = PNone,
             extra_fields = Map.empty \<rparr>,
         top_extra_fields = [''authorization_parameters'' \<mapsto> PInt 5] \<rparr> \<and>
   GlobusSessionError_to_dict
     \<lparr> code = PStr ''c'',
       authorization_parameters =
         \<lparr> session_message = PNone, session_required_identities = PNone,
           session_required_policies = PNone, session_required_single_domain = PNone,
           session_required_mfa = PBool True, session_required_scopes = PNone,
           extra_fields = Map.empty \<rparr>,
       top_extra_fields = [''authorization_parameters'' \<mapsto> PInt 5] \<rparr> True
     ''authorization_parameters'' = Some (PInt 5) \<and>
   Some (PInt 5) \<noteq>
     Some (PDict (GlobusSessionErrorAuthorizationParameters_to_dict
                    \<lparr> session_message = PNone, session_required_identities = PNone,
                      session_required_policies = PNone, session_required_single_domain = PNone,
                      session_required_mfa = PBool True, session_required_scopes = PNone,
                      extra_fields = Map.empty \<rparr> True))"
  by (simp add: GlobusSessionError_init_Instance GlobusSessionError_to_dict_lookup)

subsection \<open>The empty mapping\<close>

text \<open>
  C8. As stated the claim fails: \<^verbatim>\<open>from_dict({})\<close> does not construct an instance.
  The empty mapping has no recognised field, so the first check of the constructor raises:
  \<^verbatim>\<open>from_dict({})\<close> fails with the \<^verbatim>\<open>ValueError\<close> of that check.
\<close>

theorem C8_from_dict_empty_fails:
  "GlobusSessionErrorAuthorizationParameters_from_dict Map.empty =
     Inl (ValueError no_supported_field_message)"
  by (rule from_dict_all_null) (simp add: dict_get_def)

text \<open>
  The instance with no recognised field and no extra field, which the claim says is
  constructed, is not the result.
\<close>

theorem C8_from_dict_empty_counterexample:
  "GlobusSessionErrorAuthorizationParameters_from_dict Map.empty \<noteq>
     Inr \<lparr> session_message = PNone, session_required_identities = PNone,
           session_required_policies = PNone, session_required_single_domain = PNone,
           session_required_mfa = PNone, session_required_scopes = PNone,
           extra_fields = Map.empty \<rparr>"
proof -
  have "GlobusSessionErrorAuthorizationParameters_from_dict Map.empty =
          Inl (ValueError no_supported_field_message)"
    by (rule from_dict_all_null) (simp add: dict_get_def)
  then show ?thesis by simp
qed

subsection \<open>Extra keys and recognised names\<close>

text \<open>
  C9. An instance of either class that \<^verbatim>\<open>from_dict\<close> built has no recognised name
  among the keys of its extra fields (the six \<open>session_*\<close> names for the authorization
  parameters, \<open>code\<close> and \<open>authorization_parameters\<close> for the session error). The
  constructors do not enforce this: an extra mapping given to them is stored as it is,
  also when it has a recognised key, and \<^verbatim>\<open>to_dict(include_extra=True)\<close> then gives,
  for every key of the extra mapping, the extra value, also where a recognised field is
  stored under that name.
\<close>

theorem C9_extra_keys:
  "(GlobusSessionErrorAuthorizationParameters_from_dict d = Inr x \<longrightarrow>
      dom (extra_fields x) \<inter> set SUPPORTED_FIELDS_keys = {}) \<and>
   (GlobusSessionError_from_dict d' = Inr e \<longrightarrow>
      dom (top_extra_fields e) \<inter> set GlobusSessionError_SUPPORTED_FIELDS_keys = {}) \<and>
   (GlobusSessionErrorAuthorizationParameters_init sm sri srp srsd srm srs (Some extra) = Inr y \<longrightarrow>
      extra_fields y = extra \<and>
      (\<forall>k v. extra k = Some v \<longrightarrow>
         GlobusSessionErrorAuthorizationParameters_to_dict y True k = Some v)) \<and>
   (GlobusSessionError_init c arg (Some extra') = Inr e' \<longrightarrow>
      top_extra_fields e' = extra' \<and>
      (\<forall>k v. extra' k = Some v \<longrightarrow> GlobusSessionError_to_dict e' True k = Some v)) \<and>
   (\<exists>y0. GlobusSessionErrorAuthorizationParameters_init (PStr ''m'') PNone PNone PNone PNone PNone
            (Some [''session_message'' \<mapsto> PStr ''other'']) = Inr y0 \<and>
         session_message y0 = PStr ''m'' \<and>
         GlobusSessionErrorAuthorizationParameters_to_dict y0 True ''session_message''
           = Some (PStr ''other'')) \<and>
   (\<exists>e0. GlobusSessionError_init (PStr ''c'')
            (Value (PDict [''session_required_mfa'' \<mapsto> PBool True]))
            (Some [''code'' \<mapsto> PStr ''other'']) = Inr e0 \<and>
         code e0 = PStr ''c'' \<and>
         GlobusSessionError_to_dict e0 True ''code'' = Some (PStr ''other''))"
proof (intro conjI)
  show "GlobusSessionErrorAuthorizationParameters_from_dict d = Inr x \<longrightarrow>
      dom (extra_fields x) \<inter> set SUPPORTED_FIELDS_keys = {}"
    using from_dict_extra_disjoint by blast
  show "GlobusSessionError_from_dict d' = Inr e \<longrightarrow>
      dom (top_extra_fields e) \<inter> set GlobusSessionError_SUPPORTED_FIELDS_keys = {}"
    using GlobusSessionError_from_dict_extra_disjoint by blast
  show "GlobusSessionErrorAuthorizationParameters_init sm sri srp srsd srm srs (Some extra) = Inr y \<longrightarrow>
      extra_fields y = extra \<and>
      (\<forall>k v. extra k = Some v \<longrightarrow>
         GlobusSessionErrorAuthorizationParameters_to_dict y True k = Some v)"
  proof
    assume "GlobusSessionErrorAuthorizationParameters_init sm sri srp srsd srm srs (Some extra) = Inr y"
    then have "extra_fields y = extra"
      unfolding init_Inr_iff by simp
    then show "extra_fields y = extra \<and>
      (\<forall>k v. extra k = Some v \<longrightarrow>
         GlobusSessionErrorAuthorizationParameters_to_dict y True k = Some v)"
      by (simp add: to_dict_lookup)
  qed
  show "GlobusSessionError_init c arg (Some extra') = Inr e' \<longrightarrow>
      top_extra_fields e' = extra' \<and>
      (\<forall>k v. extra' k = Some v \<longrightarrow> GlobusSessionError_to_dict e' True k = Some v)"
  proof
    assume "GlobusSessionError_init c arg (Some extra') = Inr e'"
    then have "top_extra_fields e' = extra'"
      using GlobusSessionError_init_extra(1) by fastforce
    then show "top_extra_fields e' = extra' \<and>
      (\<forall>k v. extra' k = Some v \<longrightarrow> GlobusSessionError_to_dict e' True k = Some v)"
      by (simp add: GlobusSessionError_to_dict_lookup)
  qed
  show "\<exists>y0. GlobusSessionErrorAuthorizationParameters_init (PStr ''m'') PNone PNone PNone PNone PNone
            (Some [''session_message'' \<mapsto> PStr ''other'']) = Inr y0 \<and>
         session_message y0 = PStr ''m'' \<and>
         GlobusSessionErrorAuthorizationParameters_to_dict y0 True ''session_message''
           = Some (PStr ''other'')"
    by (simp add: init_Inr_iff field_type_ok_def to_dict_lookup)
  show "\<exists>e0. GlobusSessionError_init (PStr ''c'')
            (Value (PDict [''session_required_mfa'' \<mapsto> PBool True]))
            (Some [''code'' \<mapsto> PStr ''other'']) = Inr e0 \<and>
         code e0 = PStr ''c'' \<and>
         GlobusSessionError_to_dict e0 True ''code'' = Some (PStr ''other'')"
    by (simp add: GlobusSessionError_init_dict authorization_parameters_example
        GlobusSessionError_to_dict_lookup)
qed



text \<open>
  The theorem at the instances built from \<^verbatim>\<open>{"session_message": "m", "custom_key": 1}\<close>
  and from \<^verbatim>\<open>{"code": "c", "authorization_parameters": {"session_required_mfa": True},
  "extra_x": 5}\<close>, and at the constructor called with \<^verbatim>\<open>session_message="m"\<close> and
  \<^verbatim>\<open>extra={"session_message": "other"}\<close>.
\<close>

theorem C9_extra_keys_witness:
  "dom [''custom_key'' \<mapsto> PInt 1] \<inter> set SUPPORTED_FIELDS_keys = {} \<and>
   dom [''extra_x'' \<mapsto> PInt 5] \<inter> set GlobusSessionError_SUPPORTED_FIELDS_keys = {} \<and>
   GlobusSessionErrorAuthorizationParameters_to_dict
     \<lparr> session_message = PStr ''m'', session_required_identities = PNone,
       session_required_policies = PNone, session_required_single_domain = PNone,
       session_required_mfa = PNone, session_required_scopes = PNone,
       extra_fields = [''session_message'' \<mapsto> PStr ''other''] \<rparr> True ''session_message''
     = Some (PStr ''other'')"
proof (intro conjI)
  let ?y = "\<lparr> session_message = PStr ''m'', session_required_identities = PNone,
       session_required_policies = PNone, session_required_single_domain = PNone,
       session_required_mfa = PNone, session_required_scopes = PNone,
       extra_fields = [''session_message'' \<mapsto> PStr ''other''] \<rparr>"
  have y: "GlobusSessionErrorAuthorizationParameters_init (PStr ''m'') PNone PNone PNone PNone PNone
            (Some [''session_message'' \<mapsto> PStr ''other'']) = Inr ?y"
    unfolding init_Inr_iff by (simp add: field_type_ok_def)
  show "dom [''custom_key'' \<mapsto> PInt 1] \<inter> set SUPPORTED_FIELDS_keys = {}"
    using C9_extra_keys [THEN conjunct1, THEN mp, OF from_dict_example]
    by (simp only: GlobusSessionErrorAuthorizationParameters.simps)
  show "dom [''extra_x'' \<mapsto> PInt 5] \<inter> set GlobusSessionError_SUPPORTED_FIELDS_keys = {}"
    using C9_extra_keys [THEN conjunct2, THEN conjunct1, THEN mp, OF session_error_example]
    by (simp only: GlobusSessionError.simps)
  have "\<forall>k v. [''session_message'' \<mapsto> PStr ''other''] k = Some v \<longrightarrow>
         GlobusSessionErrorAuthorizationParameters_to_dict ?y True k = Some v"
    using C9_extra_keys [THEN conjunct2, THEN conjunct2, THEN conjunct1, THEN mp, OF y]
    by (rule conjunct2)
  then show "GlobusSessionErrorAuthorizationParameters_to_dict ?y True ''session_message''
     = Some (PStr ''other'')"
    by simp
qed

subsection \<open>Recognised keys mapped to None\<close>

text \<open>
  C10. A recognised key that is present and mapped to \<^verbatim>\<open>None\<close> is treated by
  \<^verbatim>\<open>from_dict\<close> exactly as a missing key: the result is the one for the mapping
  without the key; in a returned instance the field is \<^verbatim>\<open>None\<close>, the key is not
  among the extra fields, and no \<^verbatim>\<open>to_dict\<close> output has it. So a mapping whose only
  keys are recognised keys, all mapped to \<^verbatim>\<open>None\<close>, fails.
\<close>

theorem C10_null_as_absent:
  assumes "k \<in> set SUPPORTED_FIELDS_keys" and "param_dict k = Some PNone"
  shows "GlobusSessionErrorAuthorizationParameters_from_dict param_dict =
           GlobusSessionErrorAuthorizationParameters_from_dict (param_dict(k := None)) \<and>
         (\<forall>x. GlobusSessionErrorAuthorizationParameters_from_dict param_dict = Inr x \<longrightarrow>
            getattr x k = PNone \<and> extra_fields x k = None \<and>
            (\<forall>include_extra.
               GlobusSessionErrorAuthorizationParameters_to_dict x include_extra k = None)) \<and>
         ((\<forall>k' \<in> dom param_dict.
             k' \<in> set SUPPORTED_FIELDS_keys \<and> param_dict k' = Some PNone) \<longrightarrow>
            (\<exists>msg. GlobusSessionErrorAuthorizationParameters_from_dict param_dict
                     = Inl (ValueError msg)))"
proof (intro conjI)
  show "GlobusSessionErrorAuthorizationParameters_from_dict param_dict =
           GlobusSessionErrorAuthorizationParameters_from_dict (param_dict(k := None))"
    unfolding from_dict_eq_init
    by (simp only: dict_get_remove_null[of param_dict k, OF assms(2)]
        restrict_remove_recognised[of k _ param_dict, OF assms(1)])
  show "\<forall>x. GlobusSessionErrorAuthorizationParameters_from_dict param_dict = Inr x \<longrightarrow>
            getattr x k = PNone \<and> extra_fields x k = None \<and>
            (\<forall>include_extra.
               GlobusSessionErrorAuthorizationParameters_to_dict x include_extra k = None)"
  proof (intro allI impI)
    fix x
    assume built: "GlobusSessionErrorAuthorizationParameters_from_dict param_dict = Inr x"
    have field: "getattr x k = PNone"
      using from_dict_fields(2)[OF built assms(1)] assms(2) by (simp add: dict_get_def)
    have extra: "extra_fields x k = None"
      using from_dict_fields(1)[OF built] assms(1) by (simp add: restrict_map_def)
    from field extra show "getattr x k = PNone \<and> extra_fields x k = None \<and>
            (\<forall>include_extra.
               GlobusSessionErrorAuthorizationParameters_to_dict x include_extra k = None)"
      by (simp add: to_dict_lookup)
  qed
  show "(\<forall>k' \<in> dom param_dict.
             k' \<in> set SUPPORTED_FIELDS_keys \<and> param_dict k' = Some PNone) \<longrightarrow>
            (\<exists>msg. GlobusSessionErrorAuthorizationParameters_from_dict param_dict
                     = Inl (ValueError msg))"
  proof
    assume only_null: "\<forall>k' \<in> dom param_dict.
             k' \<in> set SUPPORTED_FIELDS_keys \<and> param_dict k' = Some PNone"
    have "dict_get param_dict n = PNone" for n
    proof (cases "param_dict n")
      case None
      then show ?thesis by (simp add: dict_get_def)
    next
      case (Some v)
      then have "n \<in> dom param_dict" by (simp add: dom_def)
      with only_null
      have "n \<in> set SUPPORTED_FIELDS_keys \<and> param_dict n = Some PNone" by (rule bspec)
      then have "param_dict n = Some PNone" by (rule conjunct2)
      then show ?thesis by (simp add: dict_get_def)
    qed
    then have "GlobusSessionErrorAuthorizationParameters_from_dict param_dict =
        Inl (ValueError no_supported_field_message)"
      by (intro from_dict_all_null ballI)
    then show "\<exists>msg. GlobusSessionErrorAuthorizationParameters_from_dict param_dict
                     = Inl (ValueError msg)"
      by (rule exI)
  qed
qed

text \<open>
  The theorem at \<^verbatim>\<open>{"session_message": None, "session_required_mfa": True}\<close> with the
  key \<open>session_message\<close>, and at \<^verbatim>\<open>{"session_message": None}\<close>, which fails.
\<close>

theorem C10_null_as_absent_witness:
  "GlobusSessionErrorAuthorizationParameters_from_dict
     ([''session_message'' \<mapsto> PNone, ''session_required_mfa'' \<mapsto> PBool True]
        (''session_message'' := None)) =
     Inr \<lparr> session_message = PNone, session_required_identities = PNone,
           session_required_policies = PNone, session_required_single_domain = PNone,
           session_required_mfa = PBool True, session_required_scopes = PNone,
           extra_fields = Map.empty \<rparr> \<and>
   GlobusSessionErrorAuthorizationParameters_to_dict
     \<lparr> session_message = PNone, session_required_identities = PNone,
       session_required_policies = PNone, session_required_single_domain = PNone,
       session_required_mfa = PBool True, session_required_scopes = PNone,
       extra_fields = Map.empty \<rparr> True ''session_message'' = None \<and>
   (\<exists>msg. GlobusSessionErrorAuthorizationParameters_from_dict [''session_message'' \<mapsto> PNone]
          = Inl (ValueError msg))"
proof (intro conjI)
  let ?d = "[''session_message'' \<mapsto> PNone, ''session_required_mfa'' \<mapsto> PBool True]"
  let ?x = "\<lparr> session_message = PNone, session_required_identities = PNone,
       session_required_policies = PNone, session_required_single_domain = PNone,
       session_required_mfa = PBool True, session_required_scopes = PNone,
       extra_fields = Map.empty \<rparr>"
  have key: "''session_message'' \<in> set SUPPORTED_FIELDS_keys"
    by (simp add: SUPPORTED_FIELDS_keys_eq)
  have null: "?d ''session_message'' = Some PNone"
    by simp
  note inst = C10_null_as_absent [of "''session_message''" ?d, OF key null]
  show "GlobusSessionErrorAuthorizationParameters_from_dict (?d(''session_message'' := None)) = Inr ?x"
    by (rule trans [OF inst [THEN conjunct1, symmetric] null_only_example])
  have "getattr ?x ''session_message'' = PNone \<and> extra_fields ?x ''session_message'' = None \<and>
            (\<forall>include_extra.
               GlobusSessionErrorAuthorizationParameters_to_dict ?x include_extra ''session_message''
                 = None)"
    by (rule inst [THEN conjunct2, THEN conjunct1, THEN spec, THEN mp, OF null_only_example])
  then have "\<forall>include_extra.
      GlobusSessionErrorAuthorizationParameters_to_dict ?x include_extra ''session_message'' = None"
    by (rule conjunct2 [THEN conjunct2])
  then show "GlobusSessionErrorAuthorizationParameters_to_dict ?x True ''session_message'' = None"
    by (rule spec)
  have key': "''session_message'' \<in> set SUPPORTED_FIELDS_keys"
    by (rule key)
  have null': "[''session_message'' \<mapsto> PNone] ''session_message'' = Some PNone"
    by simp
  have only: "\<forall>k' \<in> dom [''session_message'' \<mapsto> PNone].
             k' \<in> set SUPPORTED_FIELDS_keys \<and> [''session_message'' \<mapsto> PNone] k' = Some PNone"
    by (simp add: SUPPORTED_FIELDS_keys_eq)
  show "\<exists>msg. GlobusSessionErrorAuthorizationParameters_from_dict [''session_message'' \<mapsto> PNone]
          = Inl (ValueError msg)"
    by (rule C10_null_as_absent [of "''session_message''" "[''session_message'' \<mapsto> PNone]",
          OF key' null', THEN conjunct2, THEN conjunct2, THEN mp, OF only])
qed


end
